theory Spec2Isabelle
  imports Complex_Main "HOL-Library.AList" "HOL-Library.Multiset"
    "HOL-Library.Char_ord" "HOL-Library.List_Lexorder"
begin

section \<open>Python values, exceptions and documents\<close>

text \<open>
  The services are Python. A value that may be \<open>None\<close> is an \<open>option\<close>; the entries
  of a \<open>dict\<close> (query filters, \<open>update_data\<close>) are values of \<open>pyval\<close>; a \<open>dict\<close> is an
  association list in insertion order, and \<open>d[k] = v\<close> is \<open>AList.update k v d\<close>.
  A \<open>float\<close> is a \<open>pyfloat\<close>: a finite value, taken as a real number (the code only
  compares \<open>discount_value\<close> with \<open>0.0\<close> and \<open>100.0\<close> and copies it), one of the two
  infinities, or NaN, with which every comparison is false.
  A raised exception is the \<open>Inl\<close> of a sum; the message of the exception is kept.
\<close>

datatype pyfloat = Finite real | PosInf | NegInf | NaN

text \<open>The comparison \<open>x < y\<close> of two floats.\<close>

fun float_lt :: "pyfloat \<Rightarrow> pyfloat \<Rightarrow> bool" where
  "float_lt NaN y = False"
| "float_lt x NaN = False"
| "float_lt (Finite a) (Finite b) = (a < b)"
| "float_lt (Finite a) PosInf = True"
| "float_lt (Finite a) NegInf = False"
| "float_lt NegInf NegInf = False"
| "float_lt NegInf y = True"
| "float_lt PosInf y = False"

datatype pyval = PyNone | PyStr string | PyFloat pyfloat

type_synonym pydict = "(string \<times> pyval) list"

datatype exn =
    DocumentAlreadyExistsException string
  | DocumentNotFoundException string
  | Exception string
  | ValueError string
  | TypeError string
  | NotFoundException string
  | RepositoryException string
  | TenantMismatch string

definition str_val :: "string option \<Rightarrow> pyval" where
  "str_val s = (case s of None \<Rightarrow> PyNone | Some x \<Rightarrow> PyStr x)"

definition float_val :: "pyfloat option \<Rightarrow> pyval" where
  "float_val r = (case r of None \<Rightarrow> PyNone | Some x \<Rightarrow> PyFloat x)"

text \<open>\<open>fmt\<close> is the text an f-string gives for an optional string.\<close>

definition fmt :: "string option \<Rightarrow> string" where
  "fmt s = (case s of None \<Rightarrow> ''None'' | Some x \<Rightarrow> x)"

text \<open>Modelled from the spec: the base class \<open>AbstractDocument\<close>, which is not among
  the sources. Of its fields only the shard key is modelled, which \<open>create\<close> "computes"
  and the repositories assign.\<close>

record AbstractDocument =
  shard_key :: "string option"

text \<open>\<open>discount_store_master_document.py\<close>: no validator is declared on this class.\<close>

record DiscountStoreMasterDocument = AbstractDocument +
  tenant_id :: "string option"
  store_code :: "string option"
  discount_code :: "string option"
  discount_value :: "pyfloat option"
  description :: "string option"

text \<open>\<open>category_discount_master_document.py\<close>\<close>

record CategoryDiscountMasterDocument = AbstractDocument +
  tenant_id :: "string option"
  category_code :: "string option"
  store_code :: "string option"
  discount_code :: "string option"
  description :: "string option"
  description_short :: "string option"

text \<open>
  \<open>category_discount_detail_document.py\<close>: the class extends
  \<open>CategoryDiscountMasterDocument\<close>, declares \<open>discount_code\<close> again (the same field)
  and adds \<open>discount_value\<close> with its field validator.
\<close>

record CategoryDiscountDetailDocument = CategoryDiscountMasterDocument +
  discount_value :: "pyfloat option"

definition validate_discount_value :: "pyfloat option \<Rightarrow> exn + pyfloat option" where
  "validate_discount_value v =
     (case v of
        Some x \<Rightarrow>
          (if float_lt x (Finite 0) \<or> float_lt (Finite 100) x
           then Inl (ValueError ''discount_value must be between 0.00 and 100.00'')
           else Inr v)
      | None \<Rightarrow> Inr v)"

text \<open>The constructors called without arguments: every field takes its default \<open>None\<close>.\<close>

definition DiscountStoreMasterDocument_new :: DiscountStoreMasterDocument where
  "DiscountStoreMasterDocument_new =
     \<lparr>shard_key = None,
      DiscountStoreMasterDocument.tenant_id = None,
      DiscountStoreMasterDocument.store_code = None,
      DiscountStoreMasterDocument.discount_code = None,
      DiscountStoreMasterDocument.discount_value = None,
      DiscountStoreMasterDocument.description = None\<rparr>"

definition CategoryDiscountMasterDocument_new :: CategoryDiscountMasterDocument where
  "CategoryDiscountMasterDocument_new =
     \<lparr>shard_key = None,
      CategoryDiscountMasterDocument.tenant_id = None,
      CategoryDiscountMasterDocument.category_code = None,
      CategoryDiscountMasterDocument.store_code = None,
      CategoryDiscountMasterDocument.discount_code = None,
      CategoryDiscountMasterDocument.description = None,
      CategoryDiscountMasterDocument.description_short = None\<rparr>"

definition CategoryDiscountDetailDocument_new :: CategoryDiscountDetailDocument where
  "CategoryDiscountDetailDocument_new =
     \<lparr>shard_key = None,
      CategoryDiscountMasterDocument.tenant_id = None,
      CategoryDiscountMasterDocument.category_code = None,
      CategoryDiscountMasterDocument.store_code = None,
      CategoryDiscountMasterDocument.discount_code = None,
      CategoryDiscountMasterDocument.description = None,
      CategoryDiscountMasterDocument.description_short = None,
      CategoryDiscountDetailDocument.discount_value = None\<rparr>"

text \<open>
  A stored document is read and written by field name, as \<open>AbstractRepository\<close> and the
  database see it. A field the document does not have reads as null. An entry of
  \<open>update_data\<close> whose value has not the type of the field, or that names no field,
  leaves the document as it is.
\<close>

text \<open>Modelled from the spec: the "partial field merge" of \<open>AbstractRepository\<close> on a
  string field.\<close>

fun set_str :: "pyval \<Rightarrow> string option \<Rightarrow> string option" where
  "set_str PyNone old = None"
| "set_str (PyStr s) old = Some s"
| "set_str (PyFloat r) old = old"

text \<open>Modelled from the spec: the "partial field merge" of \<open>AbstractRepository\<close> on a
  float field.\<close>

fun set_float :: "pyval \<Rightarrow> pyfloat option \<Rightarrow> pyfloat option" where
  "set_float PyNone old = None"
| "set_float (PyFloat r) old = Some r"
| "set_float (PyStr s) old = old"

text \<open>Modelled from the spec: the fields of a stored store discount that a query
  filter of \<open>AbstractRepository\<close> reads.\<close>

definition store_getf :: "DiscountStoreMasterDocument \<Rightarrow> string \<Rightarrow> pyval" where
  "store_getf d k =
     (if k = ''tenant_id'' then str_val (DiscountStoreMasterDocument.tenant_id d)
      else if k = ''store_code'' then str_val (DiscountStoreMasterDocument.store_code d)
      else if k = ''discount_code'' then str_val (DiscountStoreMasterDocument.discount_code d)
      else if k = ''discount_value'' then float_val (DiscountStoreMasterDocument.discount_value d)
      else if k = ''description'' then str_val (DiscountStoreMasterDocument.description d)
      else if k = ''shard_key'' then str_val (shard_key d)
      else PyNone)"

text \<open>Modelled from the spec: the "partial field merge" of \<open>AbstractRepository\<close> on one
  field of a stored store discount.\<close>

definition store_setf :: "string \<Rightarrow> pyval \<Rightarrow> DiscountStoreMasterDocument \<Rightarrow> DiscountStoreMasterDocument" where
  "store_setf k v d =
     (if k = ''tenant_id''
        then d\<lparr>DiscountStoreMasterDocument.tenant_id := set_str v (DiscountStoreMasterDocument.tenant_id d)\<rparr>
      else if k = ''store_code''
        then d\<lparr>DiscountStoreMasterDocument.store_code := set_str v (DiscountStoreMasterDocument.store_code d)\<rparr>
      else if k = ''discount_code''
        then d\<lparr>DiscountStoreMasterDocument.discount_code := set_str v (DiscountStoreMasterDocument.discount_code d)\<rparr>
      else if k = ''discount_value''
        then d\<lparr>DiscountStoreMasterDocument.discount_value := set_float v (DiscountStoreMasterDocument.discount_value d)\<rparr>
      else if k = ''description''
        then d\<lparr>DiscountStoreMasterDocument.description := set_str v (DiscountStoreMasterDocument.description d)\<rparr>
      else if k = ''shard_key'' then d\<lparr>shard_key := set_str v (shard_key d)\<rparr>
      else d)"

text \<open>Modelled from the spec: the fields of a stored category discount that a query
  filter of \<open>AbstractRepository\<close> reads.\<close>

definition category_getf :: "CategoryDiscountMasterDocument \<Rightarrow> string \<Rightarrow> pyval" where
  "category_getf d k =
     (if k = ''tenant_id'' then str_val (CategoryDiscountMasterDocument.tenant_id d)
      else if k = ''category_code'' then str_val (CategoryDiscountMasterDocument.category_code d)
      else if k = ''store_code'' then str_val (CategoryDiscountMasterDocument.store_code d)
      else if k = ''discount_code'' then str_val (CategoryDiscountMasterDocument.discount_code d)
      else if k = ''description'' then str_val (CategoryDiscountMasterDocument.description d)
      else if k = ''description_short'' then str_val (CategoryDiscountMasterDocument.description_short d)
      else if k = ''shard_key'' then str_val (shard_key d)
      else PyNone)"

text \<open>Modelled from the spec: the "partial field merge" of \<open>AbstractRepository\<close> on one
  field of a stored category discount.\<close>

definition category_setf :: "string \<Rightarrow> pyval \<Rightarrow> CategoryDiscountMasterDocument \<Rightarrow> CategoryDiscountMasterDocument" where
  "category_setf k v d =
     (if k = ''tenant_id''
        then d\<lparr>CategoryDiscountMasterDocument.tenant_id := set_str v (CategoryDiscountMasterDocument.tenant_id d)\<rparr>
      else if k = ''category_code''
        then d\<lparr>CategoryDiscountMasterDocument.category_code := set_str v (CategoryDiscountMasterDocument.category_code d)\<rparr>
      else if k = ''store_code''
        then d\<lparr>CategoryDiscountMasterDocument.store_code := set_str v (CategoryDiscountMasterDocument.store_code d)\<rparr>
      else if k = ''discount_code''
        then d\<lparr>CategoryDiscountMasterDocument.discount_code := set_str v (CategoryDiscountMasterDocument.discount_code d)\<rparr>
      else if k = ''description''
        then d\<lparr>CategoryDiscountMasterDocument.description := set_str v (CategoryDiscountMasterDocument.description d)\<rparr>
      else if k = ''description_short''
        then d\<lparr>CategoryDiscountMasterDocument.description_short := set_str v (CategoryDiscountMasterDocument.description_short d)\<rparr>
      else if k = ''shard_key'' then d\<lparr>shard_key := set_str v (shard_key d)\<rparr>
      else d)"

section \<open>The generic repository operations\<close>

text \<open>
  \<open>AbstractRepository\<close> (\<open>kugel_common\<close>) is not among the sources. Its operations are
  modelled on one collection, a list of documents in insertion order, with \<open>getf\<close> and
  \<open>setf\<close> the field access of the document class.
\<close>

text \<open>Modelled from the spec: the match of a document against a query filter of
  \<open>AbstractRepository\<close>, an equality on every field the filter names.\<close>

definition matches :: "('d \<Rightarrow> string \<Rightarrow> pyval) \<Rightarrow> pydict \<Rightarrow> 'd \<Rightarrow> bool" where
  "matches getf flt d = list_all (\<lambda>(k, v). getf d k = v) flt"

text \<open>Modelled from the spec: \<open>AbstractRepository.get_one_async\<close>, which "returns the
  unique document matching (tenant_id, natural_key), or "not found" sentinel
  (null/empty), never throws for absence".\<close>

definition get_one_async :: "('d \<Rightarrow> string \<Rightarrow> pyval) \<Rightarrow> pydict \<Rightarrow> 'd list \<Rightarrow> 'd option" where
  "get_one_async getf flt coll = find (matches getf flt) coll"

text \<open>Modelled from the spec: \<open>AbstractRepository.create_async\<close>, which "inserts" the
  document and reports success.\<close>

definition create_async :: "'d \<Rightarrow> 'd list \<Rightarrow> bool \<times> 'd list" where
  "create_async document coll = (True, coll @ [document])"

text \<open>Modelled from the spec: the write of \<open>AbstractRepository\<close> to "the matching
  document", the first of the collection that matches.\<close>

fun update_first :: "('d \<Rightarrow> bool) \<Rightarrow> ('d \<Rightarrow> 'd) \<Rightarrow> 'd list \<Rightarrow> 'd list" where
  "update_first P f [] = []"
| "update_first P f (x # xs) = (if P x then f x # xs else x # update_first P f xs)"

text \<open>Modelled from the spec: the removal by \<open>AbstractRepository\<close> of "the matching
  document", the first of the collection that matches.\<close>

fun remove_first :: "('d \<Rightarrow> bool) \<Rightarrow> 'd list \<Rightarrow> 'd list" where
  "remove_first P [] = []"
| "remove_first P (x # xs) = (if P x then xs else x # remove_first P xs)"

text \<open>Modelled from the spec: the "partial field merge" of \<open>AbstractRepository\<close>, entry
  by entry of \<open>update_data\<close>.\<close>

definition apply_update :: "(string \<Rightarrow> pyval \<Rightarrow> 'd \<Rightarrow> 'd) \<Rightarrow> pydict \<Rightarrow> 'd \<Rightarrow> 'd" where
  "apply_update setf update_data d = fold (\<lambda>(k, v). setf k v) update_data d"

text \<open>Modelled from the spec: \<open>AbstractRepository.update_one_async\<close>, which "applies a
  partial field merge to the matching document" and "fails if no document matched".\<close>

definition update_one_async ::
  "('d \<Rightarrow> string \<Rightarrow> pyval) \<Rightarrow> (string \<Rightarrow> pyval \<Rightarrow> 'd \<Rightarrow> 'd) \<Rightarrow> pydict \<Rightarrow> pydict \<Rightarrow> 'd list
     \<Rightarrow> bool \<times> 'd list" where
  "update_one_async getf setf flt update_data coll =
     (if list_ex (matches getf flt) coll
      then (True, update_first (matches getf flt) (apply_update setf update_data) coll)
      else (False, coll))"

text \<open>Modelled from the spec: \<open>AbstractRepository.delete_async\<close>, which "removes the
  matching document" and reports whether one was removed.\<close>

definition delete_async :: "('d \<Rightarrow> string \<Rightarrow> pyval) \<Rightarrow> pydict \<Rightarrow> 'd list \<Rightarrow> bool \<times> 'd list" where
  "delete_async getf flt coll =
     (list_ex (matches getf flt) coll, remove_first (matches getf flt) coll)"


text \<open>
  The order of a sort specification: a list of (field, direction), direction \<open>1\<close>
  ascending and \<open>-1\<close> descending, compared field by field; null sorts before numbers
  and numbers before strings, and among the numbers NaN sorts first. The sort is a
  stable insertion sort: documents that are equal on every sort field keep their order
  in the collection.
\<close>

text \<open>Modelled from the spec: the order of two floats under the "sort (field,
  direction \<plusminus>1)" of \<open>AbstractRepository\<close>.\<close>

fun sort_float_le :: "pyfloat \<Rightarrow> pyfloat \<Rightarrow> bool" where
  "sort_float_le NaN y = True"
| "sort_float_le x NaN = False"
| "sort_float_le NegInf y = True"
| "sort_float_le x NegInf = False"
| "sort_float_le (Finite a) (Finite b) = (a \<le> b)"
| "sort_float_le (Finite a) PosInf = True"
| "sort_float_le PosInf PosInf = True"
| "sort_float_le PosInf (Finite b) = False"

text \<open>Modelled from the spec: the order of two field values under the "sort (field,
  direction \<plusminus>1)" of \<open>AbstractRepository\<close>.\<close>

fun pyval_le :: "pyval \<Rightarrow> pyval \<Rightarrow> bool" where
  "pyval_le PyNone y = True"
| "pyval_le (PyFloat a) PyNone = False"
| "pyval_le (PyFloat a) (PyFloat b) = sort_float_le a b"
| "pyval_le (PyFloat a) (PyStr t) = True"
| "pyval_le (PyStr s) (PyStr t) = (s \<le> t)"
| "pyval_le (PyStr s) y = False"

text \<open>Modelled from the spec: the order of two documents under the "sort (field,
  direction \<plusminus>1)" of \<open>AbstractRepository\<close>.\<close>

fun sort_le :: "('d \<Rightarrow> string \<Rightarrow> pyval) \<Rightarrow> (string \<times> int) list \<Rightarrow> 'd \<Rightarrow> 'd \<Rightarrow> bool" where
  "sort_le getf [] a b = True"
| "sort_le getf ((k, direction) # rest) a b =
     (if getf a k = getf b k then sort_le getf rest a b
      else if direction = - 1 then pyval_le (getf b k) (getf a k)
      else pyval_le (getf a k) (getf b k))"

text \<open>Modelled from the spec: the insertion step of the sort of \<open>AbstractRepository\<close>.\<close>

fun insort_by :: "('d \<Rightarrow> 'd \<Rightarrow> bool) \<Rightarrow> 'd \<Rightarrow> 'd list \<Rightarrow> 'd list" where
  "insort_by le x [] = [x]"
| "insort_by le x (y # ys) = (if le x y then x # y # ys else y # insort_by le x ys)"

text \<open>Modelled from the spec: the sort of \<open>AbstractRepository\<close>, "applies sort",
  as a stable insertion sort.\<close>

definition sort_by :: "('d \<Rightarrow> 'd \<Rightarrow> bool) \<Rightarrow> 'd list \<Rightarrow> 'd list" where
  "sort_by le xs = foldr (insort_by le) xs []"

text \<open>Modelled from the spec: the metadata of \<open>PaginatedResult\<close> (\<open>kugel_common\<close>),
  "metadata?: {page, limit, total_count}".\<close>

record Metadata =
  md_total_count :: nat
  md_page :: int
  md_limit :: int

text \<open>Modelled from the spec: \<open>PaginatedResult\<close> (\<open>kugel_common\<close>), "both the page of
  documents and total-count metadata".\<close>

record 'd PaginatedResult =
  data :: "'d list"
  metadata :: Metadata

text \<open>Modelled from the spec: \<open>AbstractRepository.get_list_async_with_sort_and_paging\<close>,
  which "applies sort (field, direction \<plusminus>1) then skip/limit pagination (page is 1-based:
  skip = (page-1)*limit)". A negative skip or limit is outside the spec; it counts as 0
  here.\<close>

definition get_list_async_with_sort_and_paging ::
  "('d \<Rightarrow> string \<Rightarrow> pyval) \<Rightarrow> pydict \<Rightarrow> int \<Rightarrow> int \<Rightarrow> (string \<times> int) list \<Rightarrow> 'd list \<Rightarrow> 'd list" where
  "get_list_async_with_sort_and_paging getf flt limit page sort_spec coll =
     (let skip = (page - 1) * limit
      in take (nat limit) (drop (nat skip) (sort_by (sort_le getf sort_spec) (filter (matches getf flt) coll))))"

text \<open>Modelled from the spec: \<open>AbstractRepository.get_paginated_list_async\<close>, which
  "returns both the page of documents and total-count metadata", where "total-count
  must reflect the filter before skip/limit are applied".\<close>

definition get_paginated_list_async ::
  "('d \<Rightarrow> string \<Rightarrow> pyval) \<Rightarrow> pydict \<Rightarrow> int \<Rightarrow> int \<Rightarrow> (string \<times> int) list \<Rightarrow> 'd list
     \<Rightarrow> 'd PaginatedResult" where
  "get_paginated_list_async getf flt limit page sort_spec coll =
     \<lparr>data = get_list_async_with_sort_and_paging getf flt limit page sort_spec coll,
      metadata = \<lparr>md_total_count = length (filter (matches getf flt) coll),
                  md_page = page, md_limit = limit\<rparr>\<rparr>"

section \<open>The tenant-scoped repositories\<close>

text \<open>
  A repository object holds its \<open>tenant_id\<close>; each method takes it as its first
  argument \<open>self_tenant_id\<close>, then the collection, and returns its result with the
  collection after the call. A parameter that has the name of a document field is
  written with a prime. The methods of \<open>DiscountStoreMasterRepository\<close> carry the
  prefix \<open>dsr_\<close>, those of \<open>CategoryDiscountMasterRepository\<close> the prefix \<open>cdr_\<close>.
\<close>

subsection \<open>\<open>discount_store_master_repository.py\<close>\<close>

definition dsr_make_query_filter :: "string \<Rightarrow> string option \<Rightarrow> pydict" where
  "dsr_make_query_filter self_tenant_id discount_code' =
     [(''tenant_id'', PyStr self_tenant_id), (''discount_code'', str_val discount_code')]"

text \<open>\<open>"-".join(keys)\<close> of the one-element list of the tenant id; joining a \<open>None\<close>
  raises \<open>TypeError\<close>.\<close>

definition dsr_get_shard_key :: "DiscountStoreMasterDocument \<Rightarrow> exn + string" where
  "dsr_get_shard_key document =
     (case DiscountStoreMasterDocument.tenant_id document of
        None \<Rightarrow> Inl (TypeError ''sequence item 0: expected str instance, NoneType found'')
      | Some t \<Rightarrow> Inr t)"

definition dsr_create_discount_store_async ::
  "string \<Rightarrow> DiscountStoreMasterDocument \<Rightarrow> DiscountStoreMasterDocument list
     \<Rightarrow> (exn + DiscountStoreMasterDocument) \<times> DiscountStoreMasterDocument list" where
  "dsr_create_discount_store_async self_tenant_id document coll =
     (let document = document\<lparr>DiscountStoreMasterDocument.tenant_id := Some self_tenant_id\<rparr>
      in case dsr_get_shard_key document of
           Inl e \<Rightarrow> (Inl e, coll)
         | Inr k \<Rightarrow>
             (let document = document\<lparr>shard_key := Some k\<rparr>;
                  (success, coll') = create_async document coll
              in if success then (Inr document, coll')
                 else (Inl (Exception ''Failed to create discount store''), coll')))"

definition dsr_get_discount_store_by_code_async ::
  "string \<Rightarrow> string option \<Rightarrow> DiscountStoreMasterDocument list \<Rightarrow> DiscountStoreMasterDocument option" where
  "dsr_get_discount_store_by_code_async self_tenant_id discount_code' coll =
     get_one_async store_getf (dsr_make_query_filter self_tenant_id discount_code') coll"

definition dsr_get_discount_store_by_filter_async ::
  "string \<Rightarrow> pydict \<Rightarrow> int \<Rightarrow> int \<Rightarrow> (string \<times> int) list \<Rightarrow> DiscountStoreMasterDocument list
     \<Rightarrow> DiscountStoreMasterDocument list" where
  "dsr_get_discount_store_by_filter_async self_tenant_id query_filter limit page sort_spec coll =
     (let query_filter = AList.update ''tenant_id'' (PyStr self_tenant_id) query_filter
      in get_list_async_with_sort_and_paging store_getf query_filter limit page sort_spec coll)"

definition dsr_get_discount_store_by_filter_paginated_async ::
  "string \<Rightarrow> pydict \<Rightarrow> int \<Rightarrow> int \<Rightarrow> (string \<times> int) list \<Rightarrow> DiscountStoreMasterDocument list
     \<Rightarrow> DiscountStoreMasterDocument PaginatedResult" where
  "dsr_get_discount_store_by_filter_paginated_async self_tenant_id query_filter limit page sort_spec coll =
     (let query_filter = AList.update ''tenant_id'' (PyStr self_tenant_id) query_filter
      in get_paginated_list_async store_getf query_filter limit page sort_spec coll)"

definition dsr_update_discount_store_async ::
  "string \<Rightarrow> string option \<Rightarrow> pydict \<Rightarrow> DiscountStoreMasterDocument list
     \<Rightarrow> (exn + DiscountStoreMasterDocument option) \<times> DiscountStoreMasterDocument list" where
  "dsr_update_discount_store_async self_tenant_id discount_code' update_data coll =
     (let (success, coll') =
            update_one_async store_getf store_setf
              (dsr_make_query_filter self_tenant_id discount_code') update_data coll
      in if success
         then (Inr (dsr_get_discount_store_by_code_async self_tenant_id discount_code' coll'), coll')
         else (Inl (Exception (''Failed to update discount with code '' @ fmt discount_code')), coll'))"

definition dsr_delete_discount_store_async ::
  "string \<Rightarrow> string option \<Rightarrow> DiscountStoreMasterDocument list
     \<Rightarrow> bool \<times> DiscountStoreMasterDocument list" where
  "dsr_delete_discount_store_async self_tenant_id discount_code' coll =
     delete_async store_getf (dsr_make_query_filter self_tenant_id discount_code') coll"

subsection \<open>\<open>category_discount_master_repository.py\<close>\<close>

definition cdr_make_query_filter :: "string \<Rightarrow> string option \<Rightarrow> pydict" where
  "cdr_make_query_filter self_tenant_id category_code' =
     [(''tenant_id'', PyStr self_tenant_id), (''category_code'', str_val category_code')]"

definition cdr_get_shard_key :: "CategoryDiscountMasterDocument \<Rightarrow> exn + string" where
  "cdr_get_shard_key document =
     (case CategoryDiscountMasterDocument.tenant_id document of
        None \<Rightarrow> Inl (TypeError ''sequence item 0: expected str instance, NoneType found'')
      | Some t \<Rightarrow> Inr t)"

definition cdr_create_category_discount_async ::
  "string \<Rightarrow> CategoryDiscountMasterDocument \<Rightarrow> CategoryDiscountMasterDocument list
     \<Rightarrow> (exn + CategoryDiscountMasterDocument) \<times> CategoryDiscountMasterDocument list" where
  "cdr_create_category_discount_async self_tenant_id document coll =
     (let document = document\<lparr>CategoryDiscountMasterDocument.tenant_id := Some self_tenant_id\<rparr>
      in case cdr_get_shard_key document of
           Inl e \<Rightarrow> (Inl e, coll)
         | Inr k \<Rightarrow>
             (let document = document\<lparr>shard_key := Some k\<rparr>;
                  (success, coll') = create_async document coll
              in if success then (Inr document, coll')
                 else (Inl (Exception ''Failed to create category discount''), coll')))"

definition cdr_get_category_discount_by_code_async ::
  "string \<Rightarrow> string option \<Rightarrow> CategoryDiscountMasterDocument list \<Rightarrow> CategoryDiscountMasterDocument option" where
  "cdr_get_category_discount_by_code_async self_tenant_id category_code' coll =
     get_one_async category_getf (cdr_make_query_filter self_tenant_id category_code') coll"

definition cdr_get_category_discount_by_filter_async ::
  "string \<Rightarrow> pydict \<Rightarrow> int \<Rightarrow> int \<Rightarrow> (string \<times> int) list \<Rightarrow> CategoryDiscountMasterDocument list
     \<Rightarrow> CategoryDiscountMasterDocument list" where
  "cdr_get_category_discount_by_filter_async self_tenant_id query_filter limit page sort_spec coll =
     (let query_filter = AList.update ''tenant_id'' (PyStr self_tenant_id) query_filter
      in get_list_async_with_sort_and_paging category_getf query_filter limit page sort_spec coll)"

definition cdr_get_category_discount_by_filter_paginated_async ::
  "string \<Rightarrow> pydict \<Rightarrow> int \<Rightarrow> int \<Rightarrow> (string \<times> int) list \<Rightarrow> CategoryDiscountMasterDocument list
     \<Rightarrow> CategoryDiscountMasterDocument PaginatedResult" where
  "cdr_get_category_discount_by_filter_paginated_async self_tenant_id query_filter limit page sort_spec coll =
     (let query_filter = AList.update ''tenant_id'' (PyStr self_tenant_id) query_filter
      in get_paginated_list_async category_getf query_filter limit page sort_spec coll)"

definition cdr_update_category_discount_async ::
  "string \<Rightarrow> string option \<Rightarrow> pydict \<Rightarrow> CategoryDiscountMasterDocument list
     \<Rightarrow> (exn + CategoryDiscountMasterDocument option) \<times> CategoryDiscountMasterDocument list" where
  "cdr_update_category_discount_async self_tenant_id category_code' update_data coll =
     (let (success, coll') =
            update_one_async category_getf category_setf
              (cdr_make_query_filter self_tenant_id category_code') update_data coll
      in if success
         then (Inr (cdr_get_category_discount_by_code_async self_tenant_id category_code' coll'), coll')
         else (Inl (Exception (''Failed to update category discount with code '' @ fmt category_code')), coll'))"

definition cdr_delete_category_discount_async ::
  "string \<Rightarrow> string option \<Rightarrow> CategoryDiscountMasterDocument list
     \<Rightarrow> bool \<times> CategoryDiscountMasterDocument list" where
  "cdr_delete_category_discount_async self_tenant_id category_code' coll =
     delete_async category_getf (cdr_make_query_filter self_tenant_id category_code') coll"


section \<open>The services\<close>

text \<open>
  A service object holds its repositories, and a repository its tenant: the methods
  take the tenant of each repository first. The methods of \<open>DiscountStoreMasterService\<close>
  carry the prefix \<open>dss_\<close>, those of \<open>CategoryDiscountMasterService\<close> the prefix \<open>cds_\<close>.
\<close>

subsection \<open>\<open>discount_store_master_service.py\<close>\<close>

definition dss_create_discount_store_async ::
  "string \<Rightarrow> string option \<Rightarrow> string option \<Rightarrow> pyfloat option \<Rightarrow> string option
     \<Rightarrow> DiscountStoreMasterDocument list
     \<Rightarrow> (exn + DiscountStoreMasterDocument) \<times> DiscountStoreMasterDocument list" where
  "dss_create_discount_store_async repo_tenant_id discount_code' store_code' discount_value' description' coll =
     (case dsr_get_discount_store_by_code_async repo_tenant_id discount_code' coll of
        Some discount \<Rightarrow>
          (Inl (DocumentAlreadyExistsException
                  (''discount with code '' @ fmt discount_code' @ '' already exists. tenant_id: ''
                     @ fmt (DiscountStoreMasterDocument.tenant_id discount))), coll)
      | None \<Rightarrow>
          (let discount_store_doc = DiscountStoreMasterDocument_new;
               discount_store_doc = discount_store_doc\<lparr>DiscountStoreMasterDocument.discount_code := discount_code'\<rparr>;
               discount_store_doc = discount_store_doc\<lparr>DiscountStoreMasterDocument.store_code := store_code'\<rparr>;
               discount_store_doc = discount_store_doc\<lparr>DiscountStoreMasterDocument.discount_value := discount_value'\<rparr>;
               discount_store_doc = discount_store_doc\<lparr>DiscountStoreMasterDocument.description := description'\<rparr>
           in dsr_create_discount_store_async repo_tenant_id discount_store_doc coll))"

definition dss_get_discount_store_by_code_async ::
  "string \<Rightarrow> string option \<Rightarrow> DiscountStoreMasterDocument list \<Rightarrow> exn + DiscountStoreMasterDocument" where
  "dss_get_discount_store_by_code_async repo_tenant_id discount_code' coll =
     (case dsr_get_discount_store_by_code_async repo_tenant_id discount_code' coll of
        None \<Rightarrow> Inl (DocumentNotFoundException (''discount with code '' @ fmt discount_code' @ '' not found''))
      | Some discount \<Rightarrow> Inr discount)"

definition dss_get_discount_store_paginated_async ::
  "string \<Rightarrow> int \<Rightarrow> int \<Rightarrow> (string \<times> int) list \<Rightarrow> DiscountStoreMasterDocument list
     \<Rightarrow> DiscountStoreMasterDocument PaginatedResult" where
  "dss_get_discount_store_paginated_async repo_tenant_id limit page sort_spec coll =
     dsr_get_discount_store_by_filter_paginated_async repo_tenant_id [] limit page sort_spec coll"

definition dss_update_discount_store_async ::
  "string \<Rightarrow> string option \<Rightarrow> pydict \<Rightarrow> DiscountStoreMasterDocument list
     \<Rightarrow> (exn + DiscountStoreMasterDocument option) \<times> DiscountStoreMasterDocument list" where
  "dss_update_discount_store_async repo_tenant_id discount_code' update_data coll =
     (case dsr_get_discount_store_by_code_async repo_tenant_id discount_code' coll of
        None \<Rightarrow>
          (Inl (DocumentNotFoundException (''discount with code '' @ fmt discount_code' @ '' not found'')), coll)
      | Some discount \<Rightarrow>
          dsr_update_discount_store_async repo_tenant_id discount_code' update_data coll)"

definition dss_delete_discount_store_async ::
  "string \<Rightarrow> string option \<Rightarrow> DiscountStoreMasterDocument list
     \<Rightarrow> (exn + bool) \<times> DiscountStoreMasterDocument list" where
  "dss_delete_discount_store_async repo_tenant_id discount_code' coll =
     (case dsr_get_discount_store_by_code_async repo_tenant_id discount_code' coll of
        None \<Rightarrow>
          (Inl (DocumentNotFoundException
                  (''discount_code with code '' @ fmt discount_code' @ '' not found'')), coll)
      | Some discount \<Rightarrow>
          (let (r, coll') = dsr_delete_discount_store_async repo_tenant_id discount_code' coll
           in (Inr r, coll')))"

subsection \<open>\<open>category_discount_master_service.py\<close>\<close>

definition cds_create_category_discount_async ::
  "string \<Rightarrow> string option \<Rightarrow> string option \<Rightarrow> string option \<Rightarrow> string option
     \<Rightarrow> CategoryDiscountMasterDocument list
     \<Rightarrow> (exn + CategoryDiscountMasterDocument) \<times> CategoryDiscountMasterDocument list" where
  "cds_create_category_discount_async repo_tenant_id category_code' store_code' description' discount_code' coll =
     (case cdr_get_category_discount_by_code_async repo_tenant_id category_code' coll of
        Some category \<Rightarrow>
          (Inl (DocumentAlreadyExistsException
                  (''category with code '' @ fmt category_code' @ '' already exists. tenant_id: ''
                     @ fmt (CategoryDiscountMasterDocument.tenant_id category))), coll)
      | None \<Rightarrow>
          (let category_discount_doc = CategoryDiscountMasterDocument_new;
               category_discount_doc = category_discount_doc\<lparr>CategoryDiscountMasterDocument.category_code := category_code'\<rparr>;
               category_discount_doc = category_discount_doc\<lparr>CategoryDiscountMasterDocument.store_code := store_code'\<rparr>;
               category_discount_doc = category_discount_doc\<lparr>CategoryDiscountMasterDocument.description := description'\<rparr>;
               category_discount_doc = category_discount_doc\<lparr>CategoryDiscountMasterDocument.discount_code := discount_code'\<rparr>
           in cdr_create_category_discount_async repo_tenant_id category_discount_doc coll))"

definition cds_get_category_discount_by_code_async ::
  "string \<Rightarrow> string option \<Rightarrow> CategoryDiscountMasterDocument list \<Rightarrow> exn + CategoryDiscountMasterDocument" where
  "cds_get_category_discount_by_code_async repo_tenant_id category_code' coll =
     (case cdr_get_category_discount_by_code_async repo_tenant_id category_code' coll of
        None \<Rightarrow> Inl (DocumentNotFoundException (''category with code '' @ fmt category_code' @ '' not found''))
      | Some category \<Rightarrow> Inr category)"

definition cds_get_category_discount_paginated_async ::
  "string \<Rightarrow> int \<Rightarrow> int \<Rightarrow> (string \<times> int) list \<Rightarrow> CategoryDiscountMasterDocument list
     \<Rightarrow> CategoryDiscountMasterDocument PaginatedResult" where
  "cds_get_category_discount_paginated_async repo_tenant_id limit page sort_spec coll =
     cdr_get_category_discount_by_filter_paginated_async repo_tenant_id [] limit page sort_spec coll"

definition cds_update_category_discount_async ::
  "string \<Rightarrow> string option \<Rightarrow> pydict \<Rightarrow> CategoryDiscountMasterDocument list
     \<Rightarrow> (exn + CategoryDiscountMasterDocument option) \<times> CategoryDiscountMasterDocument list" where
  "cds_update_category_discount_async repo_tenant_id category_code' update_data coll =
     (case cdr_get_category_discount_by_code_async repo_tenant_id category_code' coll of
        None \<Rightarrow>
          (Inl (DocumentNotFoundException (''category with code '' @ fmt category_code' @ '' not found'')), coll)
      | Some category \<Rightarrow>
          cdr_update_category_discount_async repo_tenant_id category_code' update_data coll)"

text \<open>
  The detail composition reads the two repositories of the service and writes to
  neither. The detail document is built with the constructor and filled by attribute
  assignment: the field validator of the class validates the arguments of the
  constructor, and none is given; an assignment is a plain store, as it is for a
  pydantic model that does not ask for validation on assignment (the configuration of
  the base class is not among the sources).
\<close>

definition cds_get_category_discount_detail_by_code_async ::
  "string \<Rightarrow> string \<Rightarrow> string option
     \<Rightarrow> CategoryDiscountMasterDocument list \<Rightarrow> DiscountStoreMasterDocument list
     \<Rightarrow> exn + CategoryDiscountDetailDocument" where
  "cds_get_category_discount_detail_by_code_async category_repo_tenant_id store_repo_tenant_id
       category_code' category_coll store_coll =
     (let category_discount_detail_doc = CategoryDiscountDetailDocument_new
      in case cdr_get_category_discount_by_code_async category_repo_tenant_id category_code' category_coll of
           None \<Rightarrow> Inr category_discount_detail_doc
         | Some category_discount_master_doc \<Rightarrow>
             (let category_discount_detail_doc = category_discount_detail_doc
                    \<lparr>CategoryDiscountMasterDocument.tenant_id :=
                       CategoryDiscountMasterDocument.tenant_id category_discount_master_doc\<rparr>;
                  category_discount_detail_doc = category_discount_detail_doc
                    \<lparr>CategoryDiscountMasterDocument.category_code :=
                       CategoryDiscountMasterDocument.category_code category_discount_master_doc\<rparr>;
                  category_discount_detail_doc = category_discount_detail_doc
                    \<lparr>CategoryDiscountMasterDocument.store_code :=
                       CategoryDiscountMasterDocument.store_code category_discount_master_doc\<rparr>;
                  category_discount_detail_doc = category_discount_detail_doc
                    \<lparr>CategoryDiscountMasterDocument.discount_code :=
                       CategoryDiscountMasterDocument.discount_code category_discount_master_doc\<rparr>;
                  category_discount_detail_doc = category_discount_detail_doc
                    \<lparr>CategoryDiscountMasterDocument.description :=
                       CategoryDiscountMasterDocument.description category_discount_master_doc\<rparr>
              in case dsr_get_discount_store_by_code_async store_repo_tenant_id
                        (CategoryDiscountMasterDocument.discount_code category_discount_master_doc) store_coll of
                   None \<Rightarrow>
                     Inl (DocumentNotFoundException
                            (''discount store with code ''
                               @ fmt (CategoryDiscountMasterDocument.discount_code category_discount_master_doc)
                               @ '' not found''))
                 | Some discount_master \<Rightarrow>
                     Inr (category_discount_detail_doc
                            \<lparr>CategoryDiscountDetailDocument.discount_value :=
                               DiscountStoreMasterDocument.discount_value discount_master\<rparr>)))"

definition cds_delete_category_discount_async ::
  "string \<Rightarrow> string option \<Rightarrow> CategoryDiscountMasterDocument list
     \<Rightarrow> (exn + bool) \<times> CategoryDiscountMasterDocument list" where
  "cds_delete_category_discount_async repo_tenant_id category_code' coll =
     (case cdr_get_category_discount_by_code_async repo_tenant_id category_code' coll of
        None \<Rightarrow>
          (Inl (DocumentNotFoundException (''category with code '' @ fmt category_code' @ '' not found'')), coll)
      | Some category \<Rightarrow>
          (let (r, coll') = cdr_delete_category_discount_async repo_tenant_id category_code' coll
           in (Inr r, coll')))"

section \<open>The cart-side web repository\<close>

text \<open>
  \<open>category_discount_details_document.py\<close> and
  \<open>category_discount_detail_web_repository.py\<close> of the cart service. The base class of
  the document is not among the sources and none of its fields is used.
\<close>

record CategoryDiscountDetailsDocument =
  tenant_id :: "string option"
  category_code :: "string option"
  store_code :: "string option"
  discount_code :: "string option"
  description :: "string option"
  description_short :: "string option"
  discount_value :: "pyfloat option"

text \<open>\<open>TerminalInfoDocument\<close> (\<open>kugel_common\<close>): the two fields the repository reads.\<close>

record TerminalInfoDocument =
  api_key :: string
  terminal_id :: string

record CategoryDiscountDetailWebRepository =
  tenant_id :: string
  store_code :: string
  terminal_info :: TerminalInfoDocument
  category_code :: string
  category_discount_detail_documents :: "CategoryDiscountDetailsDocument list option"
  base_url :: string

text \<open>
  The HTTP client of \<open>get_service_client("master-data")\<close> is the environment of the
  repository: a function from the request to what \<open>client.get\<close> does, which either
  raises (with the \<open>status_code\<close> of the exception, if it has one) or returns a response
  whose \<open>data\<close> entry is the payload of a document, or is missing. The requests a call
  issues are appended to the list of the requests issued so far, so that a call that
  issues none leaves the list as it is.
\<close>

record http_request =
  endpoint :: string
  params :: "(string \<times> string) list"
  headers :: "(string \<times> string) list"

datatype http_outcome =
    HttpRaised "int option"
  | HttpResponse "CategoryDiscountDetailsDocument option"

definition set_category_discount_detail_documents ::
  "CategoryDiscountDetailsDocument list option \<Rightarrow> CategoryDiscountDetailWebRepository
     \<Rightarrow> CategoryDiscountDetailWebRepository" where
  "set_category_discount_detail_documents documents self =
     self\<lparr>category_discount_detail_documents := documents\<rparr>"

text \<open>The request of a lookup: \<open>headers\<close>, \<open>params\<close> and \<open>endpoint\<close> as the method builds
  them.\<close>

definition detail_request :: "CategoryDiscountDetailWebRepository \<Rightarrow> string \<Rightarrow> http_request" where
  "detail_request self category_code' =
     \<lparr>endpoint = ''/tenants/'' @ CategoryDiscountDetailWebRepository.tenant_id self
                   @ ''/category_discounts/'' @ category_code' @ ''/detail'',
      params = [(''terminal_id'', terminal_id (terminal_info self))],
      headers = [(''X-API-KEY'', api_key (terminal_info self))]\<rparr>"

definition web_get_category_discount_detail_by_code_async ::
  "(http_request \<Rightarrow> http_outcome) \<Rightarrow> string
     \<Rightarrow> CategoryDiscountDetailWebRepository \<times> http_request list
     \<Rightarrow> (exn + CategoryDiscountDetailsDocument) \<times> (CategoryDiscountDetailWebRepository \<times> http_request list)" where
  "web_get_category_discount_detail_by_code_async client_get category_code' state =
     (let (self, requests) = state;
          documents = (case category_discount_detail_documents self of None \<Rightarrow> [] | Some ds \<Rightarrow> ds);
          self = self\<lparr>category_discount_detail_documents := Some documents\<rparr>
      in case find (\<lambda>item. CategoryDiscountDetailsDocument.category_code item = Some category_code') documents of
           Some item \<Rightarrow> (Inr item, (self, requests))
         | None \<Rightarrow>
             (let request = detail_request self category_code';
                  requests = requests @ [request]
              in case client_get request of
                   HttpRaised status_code \<Rightarrow>
                     (if status_code = Some 404
                      then (Inl (NotFoundException
                                   (''category discount detail not found for id '' @ category_code')),
                            (self, requests))
                      else (Inl (RepositoryException (''Request error for id '' @ category_code')),
                            (self, requests)))
                 | HttpResponse None \<Rightarrow>
                     (Inl (TypeError ''argument after ** must be a mapping, not NoneType''), (self, requests))
                 | HttpResponse (Some category_discount_detail) \<Rightarrow>
                     (Inr category_discount_detail,
                      (self\<lparr>category_discount_detail_documents := Some (documents @ [category_discount_detail])\<rparr>,
                       requests))))"

section \<open>The detail endpoint\<close>

text \<open>
  \<open>get_category_discount_detail\<close> of \<open>api/v1/category_discount_master.py\<close>. The
  response envelope is \<open>ApiResponse\<close>; the payload of \<open>data\<close> is what \<open>model_dump\<close> gives
  for the transformed document, or \<open>None\<close>.
\<close>

record 'r ApiResponse =
  success :: bool
  code :: int
  message :: string
  data :: "'r option"
  operation :: string

text \<open>Modelled from the spec: \<open>verify_tenant_id\<close> of \<open>kugel_common.security\<close>: "each
  request carries a tenant identity (API key or security token) that must match the
  \<open>tenant_id\<close> path segment; mismatch is a request-level rejection".\<close>

definition verify_tenant_id :: "string \<Rightarrow> string \<Rightarrow> exn + unit" where
  "verify_tenant_id tenant_id' tenant_id_with_security =
     (if tenant_id' = tenant_id_with_security then Inr ()
      else Inl (TenantMismatch tenant_id'))"

text \<open>
  The truth value of what a call returned: \<open>None\<close> is false, and an instance of a
  document or response class is true (the classes define neither \<open>__bool__\<close> nor
  \<open>__len__\<close>).
\<close>

definition truthy :: "'a option \<Rightarrow> bool" where
  "truthy x = (case x of None \<Rightarrow> False | Some obj \<Rightarrow> True)"

text \<open>
  The transformer \<open>SchemasTransformerV1.transform_category_discount_detail\<close> is not
  among the sources: it is the parameter \<open>transform\<close>, from the detail document to the
  response schema. The service of the endpoint is built for the tenant of the path,
  which both of its repositories get.
\<close>

definition get_category_discount_detail ::
  "(CategoryDiscountDetailDocument \<Rightarrow> 'r) \<Rightarrow> string \<Rightarrow> string \<Rightarrow> string
     \<Rightarrow> CategoryDiscountMasterDocument list \<Rightarrow> DiscountStoreMasterDocument list
     \<Rightarrow> exn + 'r ApiResponse" where
  "get_category_discount_detail transform category_code' tenant_id' tenant_id_with_security
       category_coll store_coll =
     (case verify_tenant_id tenant_id' tenant_id_with_security of
        Inl e \<Rightarrow> Inl e
      | Inr u \<Rightarrow>
          (case cds_get_category_discount_detail_by_code_async tenant_id' tenant_id'
                  (Some category_code') category_coll store_coll of
             Inl e \<Rightarrow> Inl e
           | Inr returned \<Rightarrow>
               (let category_discount_detail = Some returned;
                    return_category_discount_detail =
                      (if truthy category_discount_detail
                       then map_option transform category_discount_detail else None);
                    (message', data') =
                      (if truthy return_category_discount_detail
                       then (''Category '' @ category_code' @ '' found successfully for tenant_id: '' @ tenant_id',
                             return_category_discount_detail)
                       else (''Category '' @ category_code' @ '' not found for tenant_id: '' @ tenant_id',
                             None))
                in Inr \<lparr>success = True, code = 200, message = message', data = data',
                        operation = ''get_category_discount_detail''\<rparr>)))"

section \<open>The item-book nested editor\<close>

text \<open>
  The endpoints of \<open>api/v1/item_book_master.py\<close> pass their arguments to the item-book
  service, which is not among the sources, like the item-book document and its
  repository. The data model and the operations of the service are modelled from the
  specification of the nested editor; the names are those the endpoints call.
\<close>

text \<open>Modelled from the spec: a button, "a position (pos_x, pos_y) acting as a
  composite key within a tab, plus item reference and display attributes".\<close>

record Button =
  pos_x :: int
  pos_y :: int
  item_code :: string
  display :: string

text \<open>Modelled from the spec: a tab, "a tab_number (key within category) and an ordered
  list of Button".\<close>

record Tab =
  tab_number :: int
  tab_title :: string
  buttons :: "Button list"

text \<open>Modelled from the spec: a category, "a category_number (key within item book) and
  an ordered list of Tab".\<close>

record Category =
  category_number :: int
  category_title :: string
  tabs :: "Tab list"

text \<open>Modelled from the spec: the item book, "tenant_id, item_book_id (key), title,
  ordered list of Category".\<close>

record ItemBook =
  tenant_id :: string
  item_book_id :: string
  title :: string
  categories :: "Category list"

text \<open>Modelled from the spec: the levels of the nested tree, "Book, Categories, Tabs,
  Buttons".\<close>

datatype level = BookLevel | CategoryLevel | TabLevel | ButtonLevel

text \<open>Modelled from the spec: the failures of the nested editor, \<open>NotFound\<close>
  "identifying the missing level" and \<open>AlreadyExists\<close>.\<close>

datatype item_book_error = NotFound level | AlreadyExists level

text \<open>Modelled from the spec: the filter of the item-book repository, which is
  tenant-scoped ("every read/write operation implicitly adds tenant_id") and keyed by
  \<open>item_book_id\<close>.\<close>

definition is_item_book :: "string \<Rightarrow> string \<Rightarrow> ItemBook \<Rightarrow> bool" where
  "is_item_book self_tenant_id item_book_id' book =
     (ItemBook.tenant_id book = self_tenant_id \<and> item_book_id book = item_book_id')"

text \<open>Modelled from the spec: the load of the item-book repository, "load the
  ItemBook".\<close>

definition get_item_book_by_id_async :: "string \<Rightarrow> string \<Rightarrow> ItemBook list \<Rightarrow> ItemBook option" where
  "get_item_book_by_id_async self_tenant_id item_book_id' coll =
     find (is_item_book self_tenant_id item_book_id') coll"

text \<open>Modelled from the spec: the write of the item-book repository, "persist the
  entire document back".\<close>

definition persist_item_book :: "string \<Rightarrow> string \<Rightarrow> ItemBook \<Rightarrow> ItemBook list \<Rightarrow> ItemBook list" where
  "persist_item_book self_tenant_id item_book_id' book coll =
     update_first (is_item_book self_tenant_id item_book_id') (\<lambda>old. book) coll"

text \<open>Modelled from the spec: the pattern of every operation of the nested editor,
  "load, locate by key, mutate copy, persist whole document, return refreshed
  document", with the failure policy "any missing intermediate ancestor (book, category,
  or tab) at any level fails with NotFound identifying the missing level; no partial
  mutation is persisted on failure". The argument \<open>edit\<close> locates and mutates in the
  loaded copy, or fails.\<close>

definition item_book_mutation ::
  "string \<Rightarrow> string \<Rightarrow> (ItemBook \<Rightarrow> item_book_error + ItemBook) \<Rightarrow> ItemBook list
     \<Rightarrow> (item_book_error + ItemBook option) \<times> ItemBook list" where
  "item_book_mutation self_tenant_id item_book_id' edit coll =
     (case get_item_book_by_id_async self_tenant_id item_book_id' coll of
        None \<Rightarrow> (Inl (NotFound BookLevel), coll)
      | Some book \<Rightarrow>
          (case edit book of
             Inl e \<Rightarrow> (Inl e, coll)
           | Inr book' \<Rightarrow>
               (let coll' = persist_item_book self_tenant_id item_book_id' book' coll
                in (Inr (get_item_book_by_id_async self_tenant_id item_book_id' coll'), coll'))))"

text \<open>Modelled from the spec: "locate the nested element by key, mutate the in-memory
  structure". The first element of the list with the key is edited in place; the error
  \<open>missing\<close> is the result when no element has the key.\<close>

fun edit_first :: "('a \<Rightarrow> bool) \<Rightarrow> ('a \<Rightarrow> 'e + 'a) \<Rightarrow> 'e \<Rightarrow> 'a list \<Rightarrow> 'e + 'a list" where
  "edit_first P f missing [] = Inl missing"
| "edit_first P f missing (x # xs) =
     (if P x then (case f x of Inl e \<Rightarrow> Inl e | Inr x' \<Rightarrow> Inr (x' # xs))
      else (case edit_first P f missing xs of Inl e \<Rightarrow> Inl e | Inr xs' \<Rightarrow> Inr (x # xs')))"

text \<open>Modelled from the spec: the step of an operation through the category with the
  given \<open>category_number\<close>, which fails with \<open>NotFound\<close> for the category level.\<close>

definition in_category ::
  "int \<Rightarrow> (Category \<Rightarrow> item_book_error + Category) \<Rightarrow> ItemBook \<Rightarrow> item_book_error + ItemBook" where
  "in_category category_number' f book =
     (case edit_first (\<lambda>c. category_number c = category_number') f (NotFound CategoryLevel)
             (categories book) of
        Inl e \<Rightarrow> Inl e
      | Inr cs \<Rightarrow> Inr (book\<lparr>categories := cs\<rparr>))"

text \<open>Modelled from the spec: the step of an operation through the tab with the given
  \<open>tab_number\<close>, which fails with \<open>NotFound\<close> for the tab level.\<close>

definition in_tab ::
  "int \<Rightarrow> (Tab \<Rightarrow> item_book_error + Tab) \<Rightarrow> Category \<Rightarrow> item_book_error + Category" where
  "in_tab tab_number' f category =
     (case edit_first (\<lambda>t. tab_number t = tab_number') f (NotFound TabLevel) (tabs category) of
        Inl e \<Rightarrow> Inl e
      | Inr ts \<Rightarrow> Inr (category\<lparr>tabs := ts\<rparr>))"

text \<open>Modelled from the spec: the key of a button, its "position (pos_x, pos_y)".\<close>

definition button_at :: "int \<Rightarrow> int \<Rightarrow> Button \<Rightarrow> bool" where
  "button_at x y b = (pos_x b = x \<and> pos_y b = y)"



text \<open>Modelled from the spec: "add_category(book_id, category): append; category_number
  must not already exist in the book, else AlreadyExists".\<close>

definition add_category_to_item_book_async ::
  "string \<Rightarrow> string \<Rightarrow> Category \<Rightarrow> ItemBook list
     \<Rightarrow> (item_book_error + ItemBook option) \<times> ItemBook list" where
  "add_category_to_item_book_async self_tenant_id item_book_id' category =
     item_book_mutation self_tenant_id item_book_id'
       (\<lambda>book. if list_ex (\<lambda>c. category_number c = category_number category) (categories book)
               then Inl (AlreadyExists CategoryLevel)
               else Inr (book\<lparr>categories := categories book @ [category]\<rparr>))"

text \<open>Modelled from the spec: "update_category(book_id, category_number): replace
  category fields in place; category must exist, else NotFound".\<close>

definition update_category_in_item_book_async ::
  "string \<Rightarrow> string \<Rightarrow> int \<Rightarrow> Category \<Rightarrow> ItemBook list
     \<Rightarrow> (item_book_error + ItemBook option) \<times> ItemBook list" where
  "update_category_in_item_book_async self_tenant_id item_book_id' category_number' category =
     item_book_mutation self_tenant_id item_book_id'
       (in_category category_number' (\<lambda>old. Inr category))"

text \<open>Modelled from the spec: "delete_category(book_id, category_number): remove
  matching category (and its entire tab/button subtree)".\<close>

definition delete_category_from_item_book_async ::
  "string \<Rightarrow> string \<Rightarrow> int \<Rightarrow> ItemBook list
     \<Rightarrow> (item_book_error + ItemBook option) \<times> ItemBook list" where
  "delete_category_from_item_book_async self_tenant_id item_book_id' category_number' =
     item_book_mutation self_tenant_id item_book_id'
       (\<lambda>book. Inr (book\<lparr>categories :=
                          filter (\<lambda>c. category_number c \<noteq> category_number') (categories book)\<rparr>))"

text \<open>Modelled from the spec: \<open>add_tab\<close>, "same pattern one level down, keyed by
  (category_number, tab_number)": append, the \<open>tab_number\<close> must not already exist in the
  category.\<close>

definition add_tab_to_category_in_item_book_async ::
  "string \<Rightarrow> string \<Rightarrow> int \<Rightarrow> Tab \<Rightarrow> ItemBook list
     \<Rightarrow> (item_book_error + ItemBook option) \<times> ItemBook list" where
  "add_tab_to_category_in_item_book_async self_tenant_id item_book_id' category_number' tab =
     item_book_mutation self_tenant_id item_book_id'
       (in_category category_number'
          (\<lambda>category. if list_ex (\<lambda>t. tab_number t = tab_number tab) (tabs category)
                      then Inl (AlreadyExists TabLevel)
                      else Inr (category\<lparr>tabs := tabs category @ [tab]\<rparr>)))"

text \<open>Modelled from the spec: \<open>update_tab\<close>, "same pattern one level down": replace
  in place, the tab must exist.\<close>

definition update_tab_in_category_in_item_book_async ::
  "string \<Rightarrow> string \<Rightarrow> int \<Rightarrow> int \<Rightarrow> Tab \<Rightarrow> ItemBook list
     \<Rightarrow> (item_book_error + ItemBook option) \<times> ItemBook list" where
  "update_tab_in_category_in_item_book_async self_tenant_id item_book_id' category_number' tab_number' tab =
     item_book_mutation self_tenant_id item_book_id'
       (in_category category_number' (in_tab tab_number' (\<lambda>old. Inr tab)))"

text \<open>Modelled from the spec: \<open>delete_tab\<close>, "same pattern one level down": remove
  the matching tab.\<close>

definition delete_tab_from_category_in_item_book_async ::
  "string \<Rightarrow> string \<Rightarrow> int \<Rightarrow> int \<Rightarrow> ItemBook list
     \<Rightarrow> (item_book_error + ItemBook option) \<times> ItemBook list" where
  "delete_tab_from_category_in_item_book_async self_tenant_id item_book_id' category_number' tab_number' =
     item_book_mutation self_tenant_id item_book_id'
       (in_category category_number'
          (\<lambda>category. Inr (category\<lparr>tabs := filter (\<lambda>t. tab_number t \<noteq> tab_number') (tabs category)\<rparr>)))"

text \<open>Modelled from the spec: \<open>add_button\<close>, "same pattern two levels down, keyed by
  (category_number, tab_number, pos_x, pos_y). Button identity is purely positional:
  two buttons cannot share (pos_x, pos_y) within a tab".\<close>

definition add_button_to_tab_in_category_in_item_book_async ::
  "string \<Rightarrow> string \<Rightarrow> int \<Rightarrow> int \<Rightarrow> Button \<Rightarrow> ItemBook list
     \<Rightarrow> (item_book_error + ItemBook option) \<times> ItemBook list" where
  "add_button_to_tab_in_category_in_item_book_async self_tenant_id item_book_id' category_number' tab_number' button =
     item_book_mutation self_tenant_id item_book_id'
       (in_category category_number'
          (in_tab tab_number'
             (\<lambda>tab. if list_ex (button_at (pos_x button) (pos_y button)) (buttons tab)
                    then Inl (AlreadyExists ButtonLevel)
                    else Inr (tab\<lparr>buttons := buttons tab @ [button]\<rparr>))))"

text \<open>Modelled from the spec: \<open>update_button\<close>, "same pattern two levels down":
  replace in place, the button at the position must exist.\<close>

definition update_button_in_tab_in_category_in_item_book_async ::
  "string \<Rightarrow> string \<Rightarrow> int \<Rightarrow> int \<Rightarrow> int \<Rightarrow> int \<Rightarrow> Button \<Rightarrow> ItemBook list
     \<Rightarrow> (item_book_error + ItemBook option) \<times> ItemBook list" where
  "update_button_in_tab_in_category_in_item_book_async self_tenant_id item_book_id' category_number' tab_number' x y button =
     item_book_mutation self_tenant_id item_book_id'
       (in_category category_number'
          (in_tab tab_number'
             (\<lambda>tab. case edit_first (button_at x y) (\<lambda>old. Inr button) (NotFound ButtonLevel) (buttons tab) of
                      Inl e \<Rightarrow> Inl e
                    | Inr bs \<Rightarrow> Inr (tab\<lparr>buttons := bs\<rparr>))))"

text \<open>Modelled from the spec: \<open>delete_button\<close>, "same pattern two levels down":
  remove the button at the position.\<close>

definition delete_button_from_tab_in_category_in_item_book_async ::
  "string \<Rightarrow> string \<Rightarrow> int \<Rightarrow> int \<Rightarrow> int \<Rightarrow> int \<Rightarrow> ItemBook list
     \<Rightarrow> (item_book_error + ItemBook option) \<times> ItemBook list" where
  "delete_button_from_tab_in_category_in_item_book_async self_tenant_id item_book_id' category_number' tab_number' x y =
     item_book_mutation self_tenant_id item_book_id'
       (in_category category_number'
          (in_tab tab_number'
             (\<lambda>tab. Inr (tab\<lparr>buttons := filter (\<lambda>b. \<not> button_at x y b) (buttons tab)\<rparr>))))"

subsection \<open>Positional uniqueness of buttons and the reachable collections\<close>






section \<open>Example documents\<close>

text \<open>Documents as the repositories store them, for the concrete instances below.\<close>

definition store_doc :: "string \<Rightarrow> string \<Rightarrow> real \<Rightarrow> DiscountStoreMasterDocument" where
  "store_doc t c v =
     \<lparr>shard_key = Some t, DiscountStoreMasterDocument.tenant_id = Some t,
      DiscountStoreMasterDocument.store_code = Some ''S1'',
      DiscountStoreMasterDocument.discount_code = Some c,
      DiscountStoreMasterDocument.discount_value = Some (Finite v),
      DiscountStoreMasterDocument.description = None\<rparr>"

definition category_doc :: "string \<Rightarrow> string \<Rightarrow> string \<Rightarrow> CategoryDiscountMasterDocument" where
  "category_doc t k c =
     \<lparr>shard_key = Some t, CategoryDiscountMasterDocument.tenant_id = Some t,
      CategoryDiscountMasterDocument.category_code = Some k,
      CategoryDiscountMasterDocument.store_code = Some ''S1'',
      CategoryDiscountMasterDocument.discount_code = Some c,
      CategoryDiscountMasterDocument.description = None,
      CategoryDiscountMasterDocument.description_short = None\<rparr>"

definition empty_details_doc :: CategoryDiscountDetailsDocument where
  "empty_details_doc =
     \<lparr>CategoryDiscountDetailsDocument.tenant_id = None,
      CategoryDiscountDetailsDocument.category_code = None,
      CategoryDiscountDetailsDocument.store_code = None,
      CategoryDiscountDetailsDocument.discount_code = None,
      CategoryDiscountDetailsDocument.description = None,
      CategoryDiscountDetailsDocument.description_short = None,
      CategoryDiscountDetailsDocument.discount_value = None\<rparr>"

definition details_doc :: "string \<Rightarrow> real \<Rightarrow> CategoryDiscountDetailsDocument" where
  "details_doc k v =
     empty_details_doc\<lparr>CategoryDiscountDetailsDocument.category_code := Some k,
                       CategoryDiscountDetailsDocument.discount_value := Some (Finite v)\<rparr>"

text \<open>A master-data service that answers every detail request with the payload of
  the default detail document, as it does for a category code without category
  discount, and one that answers with a document for the category \<open>C1\<close>.\<close>

definition soft_miss_client :: "http_request \<Rightarrow> http_outcome" where
  "soft_miss_client request = HttpResponse (Some empty_details_doc)"

definition found_client :: "http_request \<Rightarrow> http_outcome" where
  "found_client request = HttpResponse (Some (details_doc ''C1'' 20))"

definition cart_repository :: CategoryDiscountDetailWebRepository where
  "cart_repository =
     \<lparr>CategoryDiscountDetailWebRepository.tenant_id = ''T1'',
      CategoryDiscountDetailWebRepository.store_code = ''S1'',
      terminal_info = \<lparr>api_key = ''key'', terminal_id = ''T1-S1-1''\<rparr>,
      CategoryDiscountDetailWebRepository.category_code = ''C1'',
      category_discount_detail_documents = None,
      base_url = ''http://master-data''\<rparr>"

text \<open>An item book of tenant \<open>T1\<close> with the given categories, its category 1 with the
  given tabs, its tab 1 with the given buttons, and a button at position (2, 3).\<close>

definition example_button :: Button where
  "example_button = \<lparr>pos_x = 2, pos_y = 3, item_code = ''4901'', display = ''red''\<rparr>"

definition example_tab :: "Button list \<Rightarrow> Tab" where
  "example_tab bs = \<lparr>tab_number = 1, tab_title = ''Drinks'', buttons = bs\<rparr>"

definition example_category :: "Tab list \<Rightarrow> Category" where
  "example_category ts = \<lparr>category_number = 1, category_title = ''Food'', tabs = ts\<rparr>"

definition example_book :: "Category list \<Rightarrow> ItemBook" where
  "example_book cs =
     \<lparr>ItemBook.tenant_id = ''T1'', item_book_id = ''B1'', title = ''Main'', categories = cs\<rparr>"


section \<open>Verified properties\<close>

subsection \<open>Auxiliary facts about the list operations\<close>

lemma matches_entry: "matches getf flt d \<Longrightarrow> (k, v) \<in> set flt \<Longrightarrow> getf d k = v"
  by (auto simp: matches_def list_all_iff)

lemma update_entry: "(k, v) \<in> set (AList.update k v al)"
  by (induction al) auto

lemma find_Some_holds: "find P xs = Some x \<Longrightarrow> P x"
  by (induction xs) (auto split: if_splits)

lemma mset_insort_by: "mset (insort_by le x xs) = add_mset x (mset xs)"
  by (induction xs) auto

lemma mset_sort_by: "mset (sort_by le xs) = mset xs"
  by (induction xs) (auto simp: sort_by_def mset_insort_by)

lemma set_sort_by: "set (sort_by le xs) = set xs"
  using mset_sort_by [of le xs] by (metis set_mset_mset)

lemma length_sort_by: "length (sort_by le xs) = length xs"
  using mset_sort_by [of le xs] by (metis size_mset)

lemma page_member_matches:
  "x \<in> set (get_list_async_with_sort_and_paging getf flt limit page sort_spec coll) \<Longrightarrow> matches getf flt x"
  by (auto simp: get_list_async_with_sort_and_paging_def Let_def set_sort_by
      dest!: in_set_takeD in_set_dropD)

lemma update_first_keeps: "\<not> P d \<Longrightarrow> d \<in> set xs \<Longrightarrow> d \<in> set (update_first P f xs)"
  by (induction xs) auto

lemma remove_first_keeps: "\<not> P d \<Longrightarrow> d \<in> set xs \<Longrightarrow> d \<in> set (remove_first P xs)"
  by (induction xs) auto


subsection \<open>Category-discount detail composition\<close>

text \<open>
  C2. The detail lookup of \<open>CategoryDiscountMasterService\<close> returns the default detail
  document, every field \<open>None\<close>, and raises nothing when the category repository has no
  category discount for the code. When the category discount exists and the store
  repository has no store discount for its \<open>discount_code\<close>, the lookup raises
  \<open>DocumentNotFoundException\<close>.
\<close>

theorem detail_soft_miss_and_hard_error:
  "(cdr_get_category_discount_by_code_async ct k ccoll = None \<longrightarrow>
      cds_get_category_discount_detail_by_code_async ct st k ccoll scoll =
        Inr \<lparr>shard_key = None, CategoryDiscountMasterDocument.tenant_id = None,
             CategoryDiscountMasterDocument.category_code = None,
             CategoryDiscountMasterDocument.store_code = None,
             CategoryDiscountMasterDocument.discount_code = None,
             CategoryDiscountMasterDocument.description = None,
             CategoryDiscountMasterDocument.description_short = None,
             CategoryDiscountDetailDocument.discount_value = None\<rparr>)
   \<and> (cdr_get_category_discount_by_code_async ct k ccoll = Some m \<and>
        dsr_get_discount_store_by_code_async st (CategoryDiscountMasterDocument.discount_code m) scoll = None \<longrightarrow>
      cds_get_category_discount_detail_by_code_async ct st k ccoll scoll =
        Inl (DocumentNotFoundException
               (''discount store with code '' @ fmt (CategoryDiscountMasterDocument.discount_code m)
                  @ '' not found'')))"
  by (simp add: cds_get_category_discount_detail_by_code_async_def CategoryDiscountDetailDocument_new_def)

theorem detail_soft_miss_and_hard_error_witness:
  "cds_get_category_discount_detail_by_code_async ''T1'' ''T1'' (Some ''C1'') [] [] =
     Inr \<lparr>shard_key = None, CategoryDiscountMasterDocument.tenant_id = None,
          CategoryDiscountMasterDocument.category_code = None,
          CategoryDiscountMasterDocument.store_code = None,
          CategoryDiscountMasterDocument.discount_code = None,
          CategoryDiscountMasterDocument.description = None,
          CategoryDiscountMasterDocument.description_short = None,
          CategoryDiscountDetailDocument.discount_value = None\<rparr>
   \<and> cds_get_category_discount_detail_by_code_async ''T1'' ''T1'' (Some ''C1'')
        [\<lparr>shard_key = Some ''T1'', CategoryDiscountMasterDocument.tenant_id = Some ''T1'',
          CategoryDiscountMasterDocument.category_code = Some ''C1'',
          CategoryDiscountMasterDocument.store_code = Some ''S1'',
          CategoryDiscountMasterDocument.discount_code = Some ''D9'',
          CategoryDiscountMasterDocument.description = None,
          CategoryDiscountMasterDocument.description_short = None\<rparr>] [] =
     Inl (DocumentNotFoundException ''discount store with code D9 not found'')"
proof -
  let ?m = "\<lparr>shard_key = Some ''T1'', CategoryDiscountMasterDocument.tenant_id = Some ''T1'',
          CategoryDiscountMasterDocument.category_code = Some ''C1'',
          CategoryDiscountMasterDocument.store_code = Some ''S1'',
          CategoryDiscountMasterDocument.discount_code = Some ''D9'',
          CategoryDiscountMasterDocument.description = None,
          CategoryDiscountMasterDocument.description_short = None\<rparr>"
  have miss: "cdr_get_category_discount_by_code_async ''T1'' (Some ''C1'') [] = None"
    by (simp add: cdr_get_category_discount_by_code_async_def get_one_async_def)
  have hit: "cdr_get_category_discount_by_code_async ''T1'' (Some ''C1'') [?m] = Some ?m"
    by (simp add: cdr_get_category_discount_by_code_async_def get_one_async_def matches_def
        cdr_make_query_filter_def category_getf_def str_val_def)
  have nostore: "dsr_get_discount_store_by_code_async ''T1'' (CategoryDiscountMasterDocument.discount_code ?m) [] = None"
    by (simp add: dsr_get_discount_store_by_code_async_def get_one_async_def)
  from detail_soft_miss_and_hard_error [where ct = "''T1''" and st = "''T1''" and k = "Some ''C1''"
      and ccoll = "[]" and scoll = "[]"] miss
  have a: "cds_get_category_discount_detail_by_code_async ''T1'' ''T1'' (Some ''C1'') [] [] =
     Inr \<lparr>shard_key = None, CategoryDiscountMasterDocument.tenant_id = None,
          CategoryDiscountMasterDocument.category_code = None,
          CategoryDiscountMasterDocument.store_code = None,
          CategoryDiscountMasterDocument.discount_code = None,
          CategoryDiscountMasterDocument.description = None,
          CategoryDiscountMasterDocument.description_short = None,
          CategoryDiscountDetailDocument.discount_value = None\<rparr>"
    by simp
  from detail_soft_miss_and_hard_error [where ct = "''T1''" and st = "''T1''" and k = "Some ''C1''"
      and ccoll = "[?m]" and scoll = "[]" and m = ?m] hit nostore
  have b: "cds_get_category_discount_detail_by_code_async ''T1'' ''T1'' (Some ''C1'') [?m] [] =
     Inl (DocumentNotFoundException ''discount store with code D9 not found'')"
    by (simp add: fmt_def)
  from a b show ?thesis by simp
qed

text \<open>
  C8. When the category discount for the code exists and the store discount its
  \<open>discount_code\<close> names exists, the lookup returns a detail document whose \<open>tenant_id\<close>,
  \<open>category_code\<close>, \<open>store_code\<close>, \<open>discount_code\<close> and \<open>description\<close> are those of the
  category discount and whose \<open>discount_value\<close> is that of the store discount.
\<close>

theorem detail_success_fields:
  "cdr_get_category_discount_by_code_async ct k ccoll = Some m \<Longrightarrow>
   dsr_get_discount_store_by_code_async st (CategoryDiscountMasterDocument.discount_code m) scoll = Some s \<Longrightarrow>
   \<exists>r. cds_get_category_discount_detail_by_code_async ct st k ccoll scoll = Inr r
     \<and> CategoryDiscountMasterDocument.tenant_id r = CategoryDiscountMasterDocument.tenant_id m
     \<and> CategoryDiscountMasterDocument.category_code r = CategoryDiscountMasterDocument.category_code m
     \<and> CategoryDiscountMasterDocument.store_code r = CategoryDiscountMasterDocument.store_code m
     \<and> CategoryDiscountMasterDocument.discount_code r = CategoryDiscountMasterDocument.discount_code m
     \<and> CategoryDiscountMasterDocument.description r = CategoryDiscountMasterDocument.description m
     \<and> CategoryDiscountDetailDocument.discount_value r = DiscountStoreMasterDocument.discount_value s"
  by (simp add: cds_get_category_discount_detail_by_code_async_def CategoryDiscountDetailDocument_new_def)

theorem detail_success_fields_witness:
  "\<exists>r. cds_get_category_discount_detail_by_code_async ''T1'' ''T1'' (Some ''C1'')
        [\<lparr>shard_key = Some ''T1'', CategoryDiscountMasterDocument.tenant_id = Some ''T1'',
          CategoryDiscountMasterDocument.category_code = Some ''C1'',
          CategoryDiscountMasterDocument.store_code = Some ''S1'',
          CategoryDiscountMasterDocument.discount_code = Some ''D1'',
          CategoryDiscountMasterDocument.description = Some ''summer'',
          CategoryDiscountMasterDocument.description_short = None\<rparr>]
        [\<lparr>shard_key = Some ''T1'', DiscountStoreMasterDocument.tenant_id = Some ''T1'',
          DiscountStoreMasterDocument.store_code = Some ''S1'',
          DiscountStoreMasterDocument.discount_code = Some ''D1'',
          DiscountStoreMasterDocument.discount_value = Some (Finite 20),
          DiscountStoreMasterDocument.description = None\<rparr>] = Inr r
     \<and> CategoryDiscountMasterDocument.tenant_id r = Some ''T1''
     \<and> CategoryDiscountMasterDocument.category_code r = Some ''C1''
     \<and> CategoryDiscountMasterDocument.store_code r = Some ''S1''
     \<and> CategoryDiscountMasterDocument.discount_code r = Some ''D1''
     \<and> CategoryDiscountMasterDocument.description r = Some ''summer''
     \<and> CategoryDiscountDetailDocument.discount_value r = Some (Finite 20)"
proof -
  let ?m = "\<lparr>shard_key = Some ''T1'', CategoryDiscountMasterDocument.tenant_id = Some ''T1'',
          CategoryDiscountMasterDocument.category_code = Some ''C1'',
          CategoryDiscountMasterDocument.store_code = Some ''S1'',
          CategoryDiscountMasterDocument.discount_code = Some ''D1'',
          CategoryDiscountMasterDocument.description = Some ''summer'',
          CategoryDiscountMasterDocument.description_short = None\<rparr>"
  let ?s = "\<lparr>shard_key = Some ''T1'', DiscountStoreMasterDocument.tenant_id = Some ''T1'',
          DiscountStoreMasterDocument.store_code = Some ''S1'',
          DiscountStoreMasterDocument.discount_code = Some ''D1'',
          DiscountStoreMasterDocument.discount_value = Some (Finite 20),
          DiscountStoreMasterDocument.description = None\<rparr>"
  have hit: "cdr_get_category_discount_by_code_async ''T1'' (Some ''C1'') [?m] = Some ?m"
    by (simp add: cdr_get_category_discount_by_code_async_def get_one_async_def matches_def
        cdr_make_query_filter_def category_getf_def str_val_def)
  have store: "dsr_get_discount_store_by_code_async ''T1'' (CategoryDiscountMasterDocument.discount_code ?m) [?s] = Some ?s"
    by (simp add: dsr_get_discount_store_by_code_async_def get_one_async_def matches_def
        dsr_make_query_filter_def store_getf_def str_val_def)
  from detail_success_fields [OF hit store] show ?thesis by simp
qed

subsection \<open>Tenant isolation\<close>

lemma store_tenant_of_match:
  "matches store_getf flt d \<Longrightarrow> (''tenant_id'', PyStr t) \<in> set flt \<Longrightarrow>
   DiscountStoreMasterDocument.tenant_id d = Some t"
  by (drule (1) matches_entry) (auto simp: store_getf_def str_val_def split: option.splits)

lemma category_tenant_of_match:
  "matches category_getf flt d \<Longrightarrow> (''tenant_id'', PyStr t) \<in> set flt \<Longrightarrow>
   CategoryDiscountMasterDocument.tenant_id d = Some t"
  by (drule (1) matches_entry) (auto simp: category_getf_def str_val_def split: option.splits)

lemma dsr_create_result:
  "dsr_create_discount_store_async t doc coll =
     (Inr (doc\<lparr>shard_key := Some t, DiscountStoreMasterDocument.tenant_id := Some t\<rparr>),
      coll @ [doc\<lparr>shard_key := Some t, DiscountStoreMasterDocument.tenant_id := Some t\<rparr>])"
  by (simp add: dsr_create_discount_store_async_def dsr_get_shard_key_def create_async_def Let_def)

lemma cdr_create_result:
  "cdr_create_category_discount_async t doc coll =
     (Inr (doc\<lparr>shard_key := Some t, CategoryDiscountMasterDocument.tenant_id := Some t\<rparr>),
      coll @ [doc\<lparr>shard_key := Some t, CategoryDiscountMasterDocument.tenant_id := Some t\<rparr>])"
  by (simp add: cdr_create_category_discount_async_def cdr_get_shard_key_def create_async_def Let_def)

lemma store_isolation:
  assumes "DiscountStoreMasterDocument.tenant_id d \<noteq> Some T2"
  shows "dsr_get_discount_store_by_code_async T2 c coll \<noteq> Some d"
    and "d \<notin> set (dsr_get_discount_store_by_filter_async T2 flt l p s coll)"
    and "d \<notin> set (PaginatedResult.data (dsr_get_discount_store_by_filter_paginated_async T2 flt l p s coll))"
    and "\<not> matches store_getf (dsr_make_query_filter T2 c) d"
    and "d \<in> set coll \<Longrightarrow> d \<in> set (snd (dsr_update_discount_store_async T2 c upd coll))"
    and "d \<in> set coll \<Longrightarrow> d \<in> set (snd (dsr_delete_discount_store_async T2 c coll))"
proof -
  show nm: "\<not> matches store_getf (dsr_make_query_filter T2 c) d"
    using assms store_tenant_of_match [of "dsr_make_query_filter T2 c" d T2]
    by (auto simp: dsr_make_query_filter_def)
  show "dsr_get_discount_store_by_code_async T2 c coll \<noteq> Some d"
    using nm by (auto simp: dsr_get_discount_store_by_code_async_def get_one_async_def dest: find_Some_holds)
  have nf: "\<not> matches store_getf (AList.update ''tenant_id'' (PyStr T2) flt) d"
    using assms store_tenant_of_match [of "AList.update ''tenant_id'' (PyStr T2) flt" d T2]
      update_entry [of "''tenant_id''" "PyStr T2" flt]
    by blast
  show "d \<notin> set (dsr_get_discount_store_by_filter_async T2 flt l p s coll)"
    using nf by (auto simp: dsr_get_discount_store_by_filter_async_def dest: page_member_matches)
  show "d \<notin> set (PaginatedResult.data (dsr_get_discount_store_by_filter_paginated_async T2 flt l p s coll))"
    using nf by (auto simp: dsr_get_discount_store_by_filter_paginated_async_def
        get_paginated_list_async_def Let_def dest: page_member_matches)
  show "d \<in> set coll \<Longrightarrow> d \<in> set (snd (dsr_update_discount_store_async T2 c upd coll))"
    using nm by (auto simp: dsr_update_discount_store_async_def update_one_async_def update_first_keeps)
  show "d \<in> set coll \<Longrightarrow> d \<in> set (snd (dsr_delete_discount_store_async T2 c coll))"
    using nm by (auto simp: dsr_delete_discount_store_async_def delete_async_def remove_first_keeps)
qed

lemma category_isolation:
  assumes "CategoryDiscountMasterDocument.tenant_id d \<noteq> Some T2"
  shows "cdr_get_category_discount_by_code_async T2 c coll \<noteq> Some d"
    and "d \<notin> set (cdr_get_category_discount_by_filter_async T2 flt l p s coll)"
    and "d \<notin> set (PaginatedResult.data (cdr_get_category_discount_by_filter_paginated_async T2 flt l p s coll))"
    and "\<not> matches category_getf (cdr_make_query_filter T2 c) d"
    and "d \<in> set coll \<Longrightarrow> d \<in> set (snd (cdr_update_category_discount_async T2 c upd coll))"
    and "d \<in> set coll \<Longrightarrow> d \<in> set (snd (cdr_delete_category_discount_async T2 c coll))"
proof -
  show nm: "\<not> matches category_getf (cdr_make_query_filter T2 c) d"
    using assms category_tenant_of_match [of "cdr_make_query_filter T2 c" d T2]
    by (auto simp: cdr_make_query_filter_def)
  show "cdr_get_category_discount_by_code_async T2 c coll \<noteq> Some d"
    using nm by (auto simp: cdr_get_category_discount_by_code_async_def get_one_async_def dest: find_Some_holds)
  have nf: "\<not> matches category_getf (AList.update ''tenant_id'' (PyStr T2) flt) d"
    using assms category_tenant_of_match [of "AList.update ''tenant_id'' (PyStr T2) flt" d T2]
      update_entry [of "''tenant_id''" "PyStr T2" flt]
    by blast
  show "d \<notin> set (cdr_get_category_discount_by_filter_async T2 flt l p s coll)"
    using nf by (auto simp: cdr_get_category_discount_by_filter_async_def dest: page_member_matches)
  show "d \<notin> set (PaginatedResult.data (cdr_get_category_discount_by_filter_paginated_async T2 flt l p s coll))"
    using nf by (auto simp: cdr_get_category_discount_by_filter_paginated_async_def
        get_paginated_list_async_def Let_def dest: page_member_matches)
  show "d \<in> set coll \<Longrightarrow> d \<in> set (snd (cdr_update_category_discount_async T2 c upd coll))"
    using nm by (auto simp: cdr_update_category_discount_async_def update_one_async_def update_first_keeps)
  show "d \<in> set coll \<Longrightarrow> d \<in> set (snd (cdr_delete_category_discount_async T2 c coll))"
    using nm by (auto simp: cdr_delete_category_discount_async_def delete_async_def remove_first_keeps)
qed

lemma update_first_length: "length (update_first P f xs) = length xs"
  by (induction xs) auto

lemma update_first_nth_other:
  "i < length xs \<Longrightarrow> \<not> P (xs ! i) \<Longrightarrow> update_first P f xs ! i = xs ! i"
proof (induction xs arbitrary: i)
  case Nil
  then show ?case by simp
next
  case (Cons x xs)
  then show ?case by (cases i) auto
qed

lemma update_first_map: "(\<And>x. g (f x) = g x) \<Longrightarrow> map g (update_first P f xs) = map g xs"
  by (induction xs) auto

lemma remove_first_filter:
  "(\<And>x. P x \<Longrightarrow> \<not> Q x) \<Longrightarrow> filter Q (remove_first P xs) = filter Q xs"
  by (induction xs) auto

lemma remove_first_subset: "set (remove_first P xs) \<subseteq> set xs"
  by (induction xs) auto

lemma store_setf_tenant:
  "k \<noteq> ''tenant_id'' \<Longrightarrow>
   DiscountStoreMasterDocument.tenant_id (store_setf k v d) = DiscountStoreMasterDocument.tenant_id d"
  by (simp add: store_setf_def)

lemma category_setf_tenant:
  "k \<noteq> ''tenant_id'' \<Longrightarrow>
   CategoryDiscountMasterDocument.tenant_id (category_setf k v d) = CategoryDiscountMasterDocument.tenant_id d"
  by (simp add: category_setf_def)

lemma store_apply_update_tenant:
  "''tenant_id'' \<notin> fst ` set upd \<Longrightarrow>
   DiscountStoreMasterDocument.tenant_id (apply_update store_setf upd d) = DiscountStoreMasterDocument.tenant_id d"
  unfolding apply_update_def
  by (induction upd arbitrary: d) (auto simp: store_setf_tenant)

lemma category_apply_update_tenant:
  "''tenant_id'' \<notin> fst ` set upd \<Longrightarrow>
   CategoryDiscountMasterDocument.tenant_id (apply_update category_setf upd d) = CategoryDiscountMasterDocument.tenant_id d"
  unfolding apply_update_def
  by (induction upd arbitrary: d) (auto simp: category_setf_tenant)

text \<open>
  C1, as stated, fails: the repositories pass \<open>update_data\<close> to the database unfiltered,
  so an update through the repository of \<open>T1\<close> whose \<open>update_data\<close> names \<open>tenant_id\<close>
  re-tags the stored document; after it, the document that was created through \<open>T1\<close> is
  returned by \<open>get_by_code\<close> of the repository of \<open>T2\<close> and removed by its \<open>delete\<close>.
\<close>

theorem retagged_document_crosses_tenants:
  "dsr_create_discount_store_async ''T1'' (store_doc ''T0'' ''D1'' 10) [] =
     (Inr (store_doc ''T1'' ''D1'' 10), [store_doc ''T1'' ''D1'' 10])
   \<and> snd (dsr_update_discount_store_async ''T1'' (Some ''D1'') [(''tenant_id'', PyStr ''T2'')]
            [store_doc ''T1'' ''D1'' 10]) =
       [(store_doc ''T1'' ''D1'' 10)\<lparr>DiscountStoreMasterDocument.tenant_id := Some ''T2''\<rparr>]
   \<and> dsr_get_discount_store_by_code_async ''T2'' (Some ''D1'')
        [(store_doc ''T1'' ''D1'' 10)\<lparr>DiscountStoreMasterDocument.tenant_id := Some ''T2''\<rparr>] =
       Some ((store_doc ''T1'' ''D1'' 10)\<lparr>DiscountStoreMasterDocument.tenant_id := Some ''T2''\<rparr>)
   \<and> dsr_delete_discount_store_async ''T2'' (Some ''D1'')
        [(store_doc ''T1'' ''D1'' 10)\<lparr>DiscountStoreMasterDocument.tenant_id := Some ''T2''\<rparr>] =
       (True, [])"
  by (simp add: dsr_create_result dsr_update_discount_store_async_def update_one_async_def
      dsr_get_discount_store_by_code_async_def get_one_async_def dsr_delete_discount_store_async_def
      delete_async_def matches_def dsr_make_query_filter_def store_getf_def store_setf_def
      apply_update_def str_val_def store_doc_def)


text \<open>
  C1, amended. Let \<open>T1\<close> and \<open>T2\<close> be different tenants. A create through a repository
  constructed for \<open>T1\<close> stores the document with \<open>tenant_id = T1\<close>, at the end of the
  collection. A stored document whose \<open>tenant_id\<close> is \<open>T1\<close> is never returned by
  \<open>get_by_code\<close>, never included in a list or a paginated result, whatever the filter of
  the caller, and never matched by the filter of \<open>update\<close> or \<open>delete\<close> of a repository
  constructed for \<open>T2\<close>, whatever the code, also its own; an update and a delete through
  \<open>T2\<close> leave every stored document of another tenant as it is and where it is. The
  stored \<open>tenant_id\<close> of every document is kept by every update, through any tenant,
  whose \<open>update_data\<close> has no entry \<open>tenant_id\<close>, and a delete leaves only documents that
  were stored before. This holds of both repositories.
\<close>

theorem tenant_isolation:
  assumes "T1 \<noteq> T2"
  shows "dsr_create_discount_store_async T1 sdoc scoll0 =
      (Inr (sdoc\<lparr>shard_key := Some T1, DiscountStoreMasterDocument.tenant_id := Some T1\<rparr>),
       scoll0 @ [sdoc\<lparr>shard_key := Some T1, DiscountStoreMasterDocument.tenant_id := Some T1\<rparr>])
    \<and> (sd \<in> set scoll \<and> DiscountStoreMasterDocument.tenant_id sd = Some T1 \<longrightarrow>
          dsr_get_discount_store_by_code_async T2 c scoll \<noteq> Some sd
        \<and> sd \<notin> set (dsr_get_discount_store_by_filter_async T2 flt l p s scoll)
        \<and> sd \<notin> set (PaginatedResult.data (dsr_get_discount_store_by_filter_paginated_async T2 flt l p s scoll))
        \<and> \<not> matches store_getf (dsr_make_query_filter T2 c) sd
        \<and> sd \<in> set (snd (dsr_update_discount_store_async T2 c upd scoll))
        \<and> sd \<in> set (snd (dsr_delete_discount_store_async T2 c scoll)))
    \<and> length (snd (dsr_update_discount_store_async T2 c upd scoll)) = length scoll
    \<and> (\<forall>i < length scoll. DiscountStoreMasterDocument.tenant_id (scoll ! i) \<noteq> Some T2 \<longrightarrow>
          snd (dsr_update_discount_store_async T2 c upd scoll) ! i = scoll ! i)
    \<and> filter (\<lambda>d. DiscountStoreMasterDocument.tenant_id d \<noteq> Some T2)
          (snd (dsr_delete_discount_store_async T2 c scoll)) =
        filter (\<lambda>d. DiscountStoreMasterDocument.tenant_id d \<noteq> Some T2) scoll
    \<and> (''tenant_id'' \<notin> fst ` set upd \<longrightarrow>
          map DiscountStoreMasterDocument.tenant_id (snd (dsr_update_discount_store_async t c upd scoll)) =
          map DiscountStoreMasterDocument.tenant_id scoll)
    \<and> set (snd (dsr_delete_discount_store_async t c scoll)) \<subseteq> set scoll
    \<and> cdr_create_category_discount_async T1 cdoc ccoll0 =
      (Inr (cdoc\<lparr>shard_key := Some T1, CategoryDiscountMasterDocument.tenant_id := Some T1\<rparr>),
       ccoll0 @ [cdoc\<lparr>shard_key := Some T1, CategoryDiscountMasterDocument.tenant_id := Some T1\<rparr>])
    \<and> (cd \<in> set ccoll \<and> CategoryDiscountMasterDocument.tenant_id cd = Some T1 \<longrightarrow>
          cdr_get_category_discount_by_code_async T2 k ccoll \<noteq> Some cd
        \<and> cd \<notin> set (cdr_get_category_discount_by_filter_async T2 flt l p s ccoll)
        \<and> cd \<notin> set (PaginatedResult.data (cdr_get_category_discount_by_filter_paginated_async T2 flt l p s ccoll))
        \<and> \<not> matches category_getf (cdr_make_query_filter T2 k) cd
        \<and> cd \<in> set (snd (cdr_update_category_discount_async T2 k upd ccoll))
        \<and> cd \<in> set (snd (cdr_delete_category_discount_async T2 k ccoll)))
    \<and> length (snd (cdr_update_category_discount_async T2 k upd ccoll)) = length ccoll
    \<and> (\<forall>i < length ccoll. CategoryDiscountMasterDocument.tenant_id (ccoll ! i) \<noteq> Some T2 \<longrightarrow>
          snd (cdr_update_category_discount_async T2 k upd ccoll) ! i = ccoll ! i)
    \<and> filter (\<lambda>d. CategoryDiscountMasterDocument.tenant_id d \<noteq> Some T2)
          (snd (cdr_delete_category_discount_async T2 k ccoll)) =
        filter (\<lambda>d. CategoryDiscountMasterDocument.tenant_id d \<noteq> Some T2) ccoll
    \<and> (''tenant_id'' \<notin> fst ` set upd \<longrightarrow>
          map CategoryDiscountMasterDocument.tenant_id (snd (cdr_update_category_discount_async t k upd ccoll)) =
          map CategoryDiscountMasterDocument.tenant_id ccoll)
    \<and> set (snd (cdr_delete_category_discount_async t k ccoll)) \<subseteq> set ccoll"
proof -
  have s_reads: "sd \<in> set scoll \<and> DiscountStoreMasterDocument.tenant_id sd = Some T1 \<longrightarrow>
          dsr_get_discount_store_by_code_async T2 c scoll \<noteq> Some sd
        \<and> sd \<notin> set (dsr_get_discount_store_by_filter_async T2 flt l p s scoll)
        \<and> sd \<notin> set (PaginatedResult.data (dsr_get_discount_store_by_filter_paginated_async T2 flt l p s scoll))
        \<and> \<not> matches store_getf (dsr_make_query_filter T2 c) sd
        \<and> sd \<in> set (snd (dsr_update_discount_store_async T2 c upd scoll))
        \<and> sd \<in> set (snd (dsr_delete_discount_store_async T2 c scoll))"
  proof
    assume a: "sd \<in> set scoll \<and> DiscountStoreMasterDocument.tenant_id sd = Some T1"
    with assms have "DiscountStoreMasterDocument.tenant_id sd \<noteq> Some T2" by simp
    from store_isolation [OF this] a show "dsr_get_discount_store_by_code_async T2 c scoll \<noteq> Some sd
        \<and> sd \<notin> set (dsr_get_discount_store_by_filter_async T2 flt l p s scoll)
        \<and> sd \<notin> set (PaginatedResult.data (dsr_get_discount_store_by_filter_paginated_async T2 flt l p s scoll))
        \<and> \<not> matches store_getf (dsr_make_query_filter T2 c) sd
        \<and> sd \<in> set (snd (dsr_update_discount_store_async T2 c upd scoll))
        \<and> sd \<in> set (snd (dsr_delete_discount_store_async T2 c scoll))"
      by simp
  qed
  have c_reads: "cd \<in> set ccoll \<and> CategoryDiscountMasterDocument.tenant_id cd = Some T1 \<longrightarrow>
          cdr_get_category_discount_by_code_async T2 k ccoll \<noteq> Some cd
        \<and> cd \<notin> set (cdr_get_category_discount_by_filter_async T2 flt l p s ccoll)
        \<and> cd \<notin> set (PaginatedResult.data (cdr_get_category_discount_by_filter_paginated_async T2 flt l p s ccoll))
        \<and> \<not> matches category_getf (cdr_make_query_filter T2 k) cd
        \<and> cd \<in> set (snd (cdr_update_category_discount_async T2 k upd ccoll))
        \<and> cd \<in> set (snd (cdr_delete_category_discount_async T2 k ccoll))"
  proof
    assume a: "cd \<in> set ccoll \<and> CategoryDiscountMasterDocument.tenant_id cd = Some T1"
    with assms have "CategoryDiscountMasterDocument.tenant_id cd \<noteq> Some T2" by simp
    from category_isolation [OF this] a show "cdr_get_category_discount_by_code_async T2 k ccoll \<noteq> Some cd
        \<and> cd \<notin> set (cdr_get_category_discount_by_filter_async T2 flt l p s ccoll)
        \<and> cd \<notin> set (PaginatedResult.data (cdr_get_category_discount_by_filter_paginated_async T2 flt l p s ccoll))
        \<and> \<not> matches category_getf (cdr_make_query_filter T2 k) cd
        \<and> cd \<in> set (snd (cdr_update_category_discount_async T2 k upd ccoll))
        \<and> cd \<in> set (snd (cdr_delete_category_discount_async T2 k ccoll))"
      by simp
  qed
  have s_match: "matches store_getf (dsr_make_query_filter T2 c) d \<Longrightarrow>
      DiscountStoreMasterDocument.tenant_id d = Some T2" for d
    using store_tenant_of_match [of "dsr_make_query_filter T2 c" d T2]
    by (simp add: dsr_make_query_filter_def)
  have c_match: "matches category_getf (cdr_make_query_filter T2 k) d \<Longrightarrow>
      CategoryDiscountMasterDocument.tenant_id d = Some T2" for d
    using category_tenant_of_match [of "cdr_make_query_filter T2 k" d T2]
    by (simp add: cdr_make_query_filter_def)
  have s_len: "length (snd (dsr_update_discount_store_async T2 c upd scoll)) = length scoll"
    by (simp add: dsr_update_discount_store_async_def update_one_async_def update_first_length)
  have c_len: "length (snd (cdr_update_category_discount_async T2 k upd ccoll)) = length ccoll"
    by (simp add: cdr_update_category_discount_async_def update_one_async_def update_first_length)
  have s_pos: "\<forall>i < length scoll. DiscountStoreMasterDocument.tenant_id (scoll ! i) \<noteq> Some T2 \<longrightarrow>
          snd (dsr_update_discount_store_async T2 c upd scoll) ! i = scoll ! i"
    using s_match
    by (auto simp: dsr_update_discount_store_async_def update_one_async_def intro!: update_first_nth_other)
  have c_pos: "\<forall>i < length ccoll. CategoryDiscountMasterDocument.tenant_id (ccoll ! i) \<noteq> Some T2 \<longrightarrow>
          snd (cdr_update_category_discount_async T2 k upd ccoll) ! i = ccoll ! i"
    using c_match
    by (auto simp: cdr_update_category_discount_async_def update_one_async_def intro!: update_first_nth_other)
  have s_del: "filter (\<lambda>d. DiscountStoreMasterDocument.tenant_id d \<noteq> Some T2)
          (snd (dsr_delete_discount_store_async T2 c scoll)) =
        filter (\<lambda>d. DiscountStoreMasterDocument.tenant_id d \<noteq> Some T2) scoll"
    using s_match
    by (auto simp: dsr_delete_discount_store_async_def delete_async_def intro!: remove_first_filter)
  have c_del: "filter (\<lambda>d. CategoryDiscountMasterDocument.tenant_id d \<noteq> Some T2)
          (snd (cdr_delete_category_discount_async T2 k ccoll)) =
        filter (\<lambda>d. CategoryDiscountMasterDocument.tenant_id d \<noteq> Some T2) ccoll"
    using c_match
    by (auto simp: cdr_delete_category_discount_async_def delete_async_def intro!: remove_first_filter)
  have s_keep: "''tenant_id'' \<notin> fst ` set upd \<longrightarrow>
          map DiscountStoreMasterDocument.tenant_id (snd (dsr_update_discount_store_async t c upd scoll)) =
          map DiscountStoreMasterDocument.tenant_id scoll"
    by (auto simp: dsr_update_discount_store_async_def update_one_async_def
        intro!: update_first_map store_apply_update_tenant)
  have c_keep: "''tenant_id'' \<notin> fst ` set upd \<longrightarrow>
          map CategoryDiscountMasterDocument.tenant_id (snd (cdr_update_category_discount_async t k upd ccoll)) =
          map CategoryDiscountMasterDocument.tenant_id ccoll"
    by (auto simp: cdr_update_category_discount_async_def update_one_async_def
        intro!: update_first_map category_apply_update_tenant)
  have s_sub: "set (snd (dsr_delete_discount_store_async t c scoll)) \<subseteq> set scoll"
    by (simp add: dsr_delete_discount_store_async_def delete_async_def remove_first_subset)
  have c_sub: "set (snd (cdr_delete_category_discount_async t k ccoll)) \<subseteq> set ccoll"
    by (simp add: cdr_delete_category_discount_async_def delete_async_def remove_first_subset)
  show ?thesis
    using s_reads c_reads s_len c_len s_pos c_pos s_del c_del s_keep c_keep s_sub c_sub
    by (simp only: dsr_create_result cdr_create_result simp_thms)
qed

theorem tenant_isolation_witness:
  "''T1'' \<noteq> ''T2''
   \<and> store_doc ''T1'' ''D1'' 10 \<in> set [store_doc ''T1'' ''D1'' 10, store_doc ''T2'' ''D1'' 20]
   \<and> DiscountStoreMasterDocument.tenant_id (store_doc ''T1'' ''D1'' 10) = Some ''T1''
   \<and> dsr_get_discount_store_by_code_async ''T2'' (Some ''D1'')
        [store_doc ''T1'' ''D1'' 10, store_doc ''T2'' ''D1'' 20] \<noteq> Some (store_doc ''T1'' ''D1'' 10)
   \<and> store_doc ''T1'' ''D1'' 10 \<notin>
       set (PaginatedResult.data (dsr_get_discount_store_by_filter_paginated_async ''T2'' [] 100 1 []
              [store_doc ''T1'' ''D1'' 10, store_doc ''T2'' ''D1'' 20]))
   \<and> store_doc ''T1'' ''D1'' 10 \<in>
       set (snd (dsr_delete_discount_store_async ''T2'' (Some ''D1'')
              [store_doc ''T1'' ''D1'' 10, store_doc ''T2'' ''D1'' 20]))
   \<and> snd (dsr_update_discount_store_async ''T2'' (Some ''D1'') [(''description'', PyStr ''x'')]
              [store_doc ''T1'' ''D1'' 10, store_doc ''T2'' ''D1'' 20]) ! 0 = store_doc ''T1'' ''D1'' 10
   \<and> ''tenant_id'' \<notin> fst ` set [(''description'', PyStr ''x'')]
   \<and> map DiscountStoreMasterDocument.tenant_id
         (snd (dsr_update_discount_store_async ''T2'' (Some ''D1'') [(''description'', PyStr ''x'')]
              [store_doc ''T1'' ''D1'' 10, store_doc ''T2'' ''D1'' 20])) = [Some ''T1'', Some ''T2'']
   \<and> category_doc ''T1'' ''C1'' ''D1'' \<in> set [category_doc ''T1'' ''C1'' ''D1'']
   \<and> CategoryDiscountMasterDocument.tenant_id (category_doc ''T1'' ''C1'' ''D1'') = Some ''T1''
   \<and> cdr_get_category_discount_by_code_async ''T2'' (Some ''C1'') [category_doc ''T1'' ''C1'' ''D1'']
       \<noteq> Some (category_doc ''T1'' ''C1'' ''D1'')
   \<and> category_doc ''T1'' ''C1'' ''D1'' \<in>
       set (snd (cdr_update_category_discount_async ''T2'' (Some ''C1'') [(''description'', PyStr ''x'')]
              [category_doc ''T1'' ''C1'' ''D1'']))"
proof -
  let ?scoll = "[store_doc ''T1'' ''D1'' 10, store_doc ''T2'' ''D1'' 20]"
  let ?ccoll = "[category_doc ''T1'' ''C1'' ''D1'']"
  have h1: "''T1'' \<noteq> ''T2''" by simp
  have h2: "store_doc ''T1'' ''D1'' 10 \<in> set ?scoll
      \<and> DiscountStoreMasterDocument.tenant_id (store_doc ''T1'' ''D1'' 10) = Some ''T1''"
    by (simp add: store_doc_def)
  have h3: "category_doc ''T1'' ''C1'' ''D1'' \<in> set ?ccoll
      \<and> CategoryDiscountMasterDocument.tenant_id (category_doc ''T1'' ''C1'' ''D1'') = Some ''T1''"
    by (simp add: category_doc_def)
  have h4: "''tenant_id'' \<notin> fst ` set [(''description'', PyStr ''x'')]" by simp
  have h5: "DiscountStoreMasterDocument.tenant_id (?scoll ! 0) \<noteq> Some ''T2''"
    by (simp add: store_doc_def)
  note t = tenant_isolation [OF h1, where sd = "store_doc ''T1'' ''D1'' 10" and scoll = ?scoll
      and c = "Some ''D1''" and flt = "[]" and l = 100 and p = 1 and s = "[]"
      and upd = "[(''description'', PyStr ''x'')]" and t = "''T2''"
      and cd = "category_doc ''T1'' ''C1'' ''D1''" and ccoll = ?ccoll and k = "Some ''C1''"]
  from t h2 have a: "dsr_get_discount_store_by_code_async ''T2'' (Some ''D1'') ?scoll
        \<noteq> Some (store_doc ''T1'' ''D1'' 10)
      \<and> store_doc ''T1'' ''D1'' 10 \<notin>
         set (PaginatedResult.data (dsr_get_discount_store_by_filter_paginated_async ''T2'' [] 100 1 [] ?scoll))
      \<and> store_doc ''T1'' ''D1'' 10 \<in>
         set (snd (dsr_delete_discount_store_async ''T2'' (Some ''D1'') ?scoll))"
    by blast
  from t h5 have b: "snd (dsr_update_discount_store_async ''T2'' (Some ''D1'') [(''description'', PyStr ''x'')]
              ?scoll) ! 0 = ?scoll ! 0"
    by simp
  from t h4 have c: "map DiscountStoreMasterDocument.tenant_id
         (snd (dsr_update_discount_store_async ''T2'' (Some ''D1'') [(''description'', PyStr ''x'')] ?scoll)) =
        map DiscountStoreMasterDocument.tenant_id ?scoll"
    by blast
  from t h3 have d: "cdr_get_category_discount_by_code_async ''T2'' (Some ''C1'') ?ccoll
       \<noteq> Some (category_doc ''T1'' ''C1'' ''D1'')
      \<and> category_doc ''T1'' ''C1'' ''D1'' \<in>
       set (snd (cdr_update_category_discount_async ''T2'' (Some ''C1'') [(''description'', PyStr ''x'')] ?ccoll))"
    by blast
  from h1 h2 h3 h4 a b c d show ?thesis by (simp add: store_doc_def)
qed

subsection \<open>Validation of \<open>discount_value\<close>\<close>

lemma find_Some_list_ex: "find P xs = Some x \<Longrightarrow> list_ex P xs"
  by (induction xs) (auto split: if_splits)

lemma find_update_first:
  "find P xs = Some d \<Longrightarrow> P (f d) \<Longrightarrow> find P (update_first P f xs) = Some (f d)"
  by (induction xs) (auto split: if_splits)

lemma update_first_member: "find P xs = Some d \<Longrightarrow> f d \<in> set (update_first P f xs)"
  by (induction xs) (auto split: if_splits)

lemma matches_discount_value:
  "matches store_getf (dsr_make_query_filter t c) (d\<lparr>DiscountStoreMasterDocument.discount_value := v\<rparr>) =
   matches store_getf (dsr_make_query_filter t c) d"
  by (simp add: matches_def dsr_make_query_filter_def store_getf_def)

lemma apply_discount_value:
  "apply_update store_setf [(''discount_value'', PyFloat x)] d =
   d\<lparr>DiscountStoreMasterDocument.discount_value := Some x\<rparr>"
  by (simp add: apply_update_def store_setf_def)


lemma dsr_update_discount_value:
  assumes "find (matches store_getf (dsr_make_query_filter t c)) coll = Some d"
  shows "dsr_update_discount_store_async t c [(''discount_value'', PyFloat x)] coll =
     (Inr (Some (d\<lparr>DiscountStoreMasterDocument.discount_value := Some x\<rparr>)),
      update_first (matches store_getf (dsr_make_query_filter t c))
        (apply_update store_setf [(''discount_value'', PyFloat x)]) coll)"
proof -
  let ?P = "matches store_getf (dsr_make_query_filter t c)"
  let ?f = "apply_update store_setf [(''discount_value'', PyFloat x)]"
  have ex: "list_ex ?P coll"
    using assms by (rule find_Some_list_ex [where P = ?P and xs = coll and x = d])
  have pd: "?P d"
    using assms by (rule find_Some_holds [where P = ?P and xs = coll and x = d])
  from pd have pfd: "?P (?f d)"
    by (simp only: apply_discount_value matches_discount_value)
  have g: "find ?P (update_first ?P ?f coll) = Some (?f d)"
    using assms pfd by (rule find_update_first [where P = ?P and xs = coll and d = d and f = ?f])
  have u: "update_one_async store_getf store_setf (dsr_make_query_filter t c)
      [(''discount_value'', PyFloat x)] coll = (True, update_first ?P ?f coll)"
    using ex by (simp only: update_one_async_def if_True)
  show ?thesis
    unfolding dsr_update_discount_store_async_def u
    by (simp only: Let_def prod.case if_True dsr_get_discount_store_by_code_async_def get_one_async_def g
        apply_discount_value)
qed

lemma dss_update_discount_value:
  assumes "dsr_get_discount_store_by_code_async t c coll = Some d"
  shows "fst (dss_update_discount_store_async t c [(''discount_value'', PyFloat x)] coll) =
           Inr (Some (d\<lparr>DiscountStoreMasterDocument.discount_value := Some x\<rparr>))"
    and "d\<lparr>DiscountStoreMasterDocument.discount_value := Some x\<rparr> \<in>
           set (snd (dss_update_discount_store_async t c [(''discount_value'', PyFloat x)] coll))"
proof -
  let ?P = "matches store_getf (dsr_make_query_filter t c)"
  let ?f = "apply_update store_setf [(''discount_value'', PyFloat x)]"
  from assms have f: "find ?P coll = Some d"
    by (simp only: dsr_get_discount_store_by_code_async_def get_one_async_def)
  have m: "?f d \<in> set (update_first ?P ?f coll)"
    using f by (rule update_first_member [where P = ?P and xs = coll and d = d and f = ?f])
  have s: "dss_update_discount_store_async t c [(''discount_value'', PyFloat x)] coll =
      dsr_update_discount_store_async t c [(''discount_value'', PyFloat x)] coll"
    using assms by (simp only: dss_update_discount_store_async_def option.case)
  show "fst (dss_update_discount_store_async t c [(''discount_value'', PyFloat x)] coll) =
           Inr (Some (d\<lparr>DiscountStoreMasterDocument.discount_value := Some x\<rparr>))"
    by (simp only: s dsr_update_discount_value [OF f] fst_conv)
  from m show "d\<lparr>DiscountStoreMasterDocument.discount_value := Some x\<rparr> \<in>
           set (snd (dss_update_discount_store_async t c [(''discount_value'', PyFloat x)] coll))"
    by (simp only: s dsr_update_discount_value [OF f] snd_conv apply_discount_value)
qed


text \<open>
  C3, as stated, fails: neither \<open>create_discount_store_async\<close> nor
  \<open>update_discount_store_async\<close> of \<open>DiscountStoreMasterService\<close> checks a range. The
  first stores a store discount whose \<open>discount_value\<close> is \<open>100.01\<close>, the second writes
  \<open>100.01\<close> into a stored one.
\<close>

theorem store_discount_out_of_range_accepted:
  "dss_create_discount_store_async ''T1'' (Some ''D1'') (Some ''S1'') (Some (Finite 100.01)) None [] =
     (Inr (store_doc ''T1'' ''D1'' 100.01), [store_doc ''T1'' ''D1'' 100.01])
   \<and> dss_update_discount_store_async ''T1'' (Some ''D1'') [(''discount_value'', PyFloat (Finite 100.01))]
       [store_doc ''T1'' ''D1'' 10] =
     (Inr (Some (store_doc ''T1'' ''D1'' 100.01)), [store_doc ''T1'' ''D1'' 100.01])"
  by (simp add: dss_create_discount_store_async_def dsr_get_discount_store_by_code_async_def
      get_one_async_def dsr_create_result DiscountStoreMasterDocument_new_def store_doc_def
      dss_update_discount_store_async_def dsr_update_discount_store_async_def update_one_async_def
      matches_def dsr_make_query_filter_def store_getf_def store_setf_def apply_update_def str_val_def)


text \<open>
  C3, amended. The range check of \<open>discount_value\<close> is the field validator of
  \<open>CategoryDiscountDetailDocument\<close>: it accepts \<open>None\<close>, every number of \<open>[0.00, 100.00]\<close>
  (so \<open>0.0\<close>, \<open>50.0\<close> and \<open>100.0\<close>) and NaN, for which both of its comparisons are
  false, and it rejects every other value with \<open>ValueError\<close> (so \<open>-0.01\<close>, \<open>100.01\<close> and
  the infinities). Constructing or updating a store discount checks no range: when the
  \<open>discount_code\<close> is free under the tenant, \<open>create_discount_store_async\<close> stores the
  \<open>discount_value\<close> it is given, and when a store discount with the code exists,
  \<open>update_discount_store_async\<close> writes the \<open>discount_value\<close> of \<open>update_data\<close> into it and
  returns the document with that value, whatever the value is.
\<close>

theorem discount_value_validation:
  "(validate_discount_value v = Inr v) =
     (case v of
        None \<Rightarrow> True
      | Some (Finite x) \<Rightarrow> 0 \<le> x \<and> x \<le> 100
      | Some NaN \<Rightarrow> True
      | Some PosInf \<Rightarrow> False
      | Some NegInf \<Rightarrow> False)
   \<and> (validate_discount_value v \<noteq> Inr v \<longrightarrow>
        validate_discount_value v = Inl (ValueError ''discount_value must be between 0.00 and 100.00''))
   \<and> validate_discount_value (Some (Finite 0)) = Inr (Some (Finite 0))
   \<and> validate_discount_value (Some (Finite 50)) = Inr (Some (Finite 50))
   \<and> validate_discount_value (Some (Finite 100)) = Inr (Some (Finite 100))
   \<and> validate_discount_value (Some (Finite (- 0.01))) =
        Inl (ValueError ''discount_value must be between 0.00 and 100.00'')
   \<and> validate_discount_value (Some (Finite 100.01)) =
        Inl (ValueError ''discount_value must be between 0.00 and 100.00'')
   \<and> validate_discount_value (Some NaN) = Inr (Some NaN)
   \<and> (dsr_get_discount_store_by_code_async t c coll = None \<longrightarrow>
        dss_create_discount_store_async t c sc v ds coll =
          (Inr \<lparr>shard_key = Some t, DiscountStoreMasterDocument.tenant_id = Some t,
                DiscountStoreMasterDocument.store_code = sc, DiscountStoreMasterDocument.discount_code = c,
                DiscountStoreMasterDocument.discount_value = v, DiscountStoreMasterDocument.description = ds\<rparr>,
           coll @ [\<lparr>shard_key = Some t, DiscountStoreMasterDocument.tenant_id = Some t,
                DiscountStoreMasterDocument.store_code = sc, DiscountStoreMasterDocument.discount_code = c,
                DiscountStoreMasterDocument.discount_value = v, DiscountStoreMasterDocument.description = ds\<rparr>]))
   \<and> (dsr_get_discount_store_by_code_async t c coll = Some d \<longrightarrow>
        fst (dss_update_discount_store_async t c [(''discount_value'', PyFloat x)] coll) =
          Inr (Some (d\<lparr>DiscountStoreMasterDocument.discount_value := Some x\<rparr>))
        \<and> d\<lparr>DiscountStoreMasterDocument.discount_value := Some x\<rparr> \<in>
          set (snd (dss_update_discount_store_async t c [(''discount_value'', PyFloat x)] coll)))"
proof -
  have val: "(validate_discount_value v = Inr v) =
     (case v of None \<Rightarrow> True | Some (Finite x) \<Rightarrow> 0 \<le> x \<and> x \<le> 100 | Some NaN \<Rightarrow> True
      | Some PosInf \<Rightarrow> False | Some NegInf \<Rightarrow> False)"
    by (auto simp: validate_discount_value_def split: option.splits pyfloat.splits)
  have rej: "validate_discount_value v \<noteq> Inr v \<longrightarrow>
        validate_discount_value v = Inl (ValueError ''discount_value must be between 0.00 and 100.00'')"
    by (auto simp: validate_discount_value_def split: option.splits)
  have ex: "validate_discount_value (Some (Finite 0)) = Inr (Some (Finite 0))"
    "validate_discount_value (Some (Finite 50)) = Inr (Some (Finite 50))"
    "validate_discount_value (Some (Finite 100)) = Inr (Some (Finite 100))"
    "validate_discount_value (Some (Finite (- 0.01))) =
        Inl (ValueError ''discount_value must be between 0.00 and 100.00'')"
    "validate_discount_value (Some (Finite 100.01)) =
        Inl (ValueError ''discount_value must be between 0.00 and 100.00'')"
    "validate_discount_value (Some NaN) = Inr (Some NaN)"
    by (simp_all add: validate_discount_value_def)
  have cr: "dsr_get_discount_store_by_code_async t c coll = None \<longrightarrow>
        dss_create_discount_store_async t c sc v ds coll =
          (Inr \<lparr>shard_key = Some t, DiscountStoreMasterDocument.tenant_id = Some t,
                DiscountStoreMasterDocument.store_code = sc, DiscountStoreMasterDocument.discount_code = c,
                DiscountStoreMasterDocument.discount_value = v, DiscountStoreMasterDocument.description = ds\<rparr>,
           coll @ [\<lparr>shard_key = Some t, DiscountStoreMasterDocument.tenant_id = Some t,
                DiscountStoreMasterDocument.store_code = sc, DiscountStoreMasterDocument.discount_code = c,
                DiscountStoreMasterDocument.discount_value = v, DiscountStoreMasterDocument.description = ds\<rparr>])"
    by (simp add: dss_create_discount_store_async_def dsr_create_result DiscountStoreMasterDocument_new_def)
  have up: "dsr_get_discount_store_by_code_async t c coll = Some d \<longrightarrow>
        fst (dss_update_discount_store_async t c [(''discount_value'', PyFloat x)] coll) =
          Inr (Some (d\<lparr>DiscountStoreMasterDocument.discount_value := Some x\<rparr>))
        \<and> d\<lparr>DiscountStoreMasterDocument.discount_value := Some x\<rparr> \<in>
          set (snd (dss_update_discount_store_async t c [(''discount_value'', PyFloat x)] coll))"
    by (intro impI conjI) (rule dss_update_discount_value, assumption)+
  show ?thesis by (intro conjI val rej ex cr up)
qed

theorem discount_value_validation_witness:
  "validate_discount_value (Some (Finite 150)) \<noteq> Inr (Some (Finite 150))
   \<and> validate_discount_value (Some (Finite 150)) =
       Inl (ValueError ''discount_value must be between 0.00 and 100.00'')
   \<and> dsr_get_discount_store_by_code_async ''T1'' (Some ''D2'') [store_doc ''T1'' ''D1'' 10] = None
   \<and> dss_create_discount_store_async ''T1'' (Some ''D2'') (Some ''S1'') (Some (Finite 150)) None
        [store_doc ''T1'' ''D1'' 10] =
        (Inr (store_doc ''T1'' ''D2'' 150), [store_doc ''T1'' ''D1'' 10, store_doc ''T1'' ''D2'' 150])
   \<and> dsr_get_discount_store_by_code_async ''T1'' (Some ''D1'') [store_doc ''T1'' ''D1'' 10] =
        Some (store_doc ''T1'' ''D1'' 10)
   \<and> fst (dss_update_discount_store_async ''T1'' (Some ''D1'') [(''discount_value'', PyFloat (Finite 150))]
        [store_doc ''T1'' ''D1'' 10]) = Inr (Some (store_doc ''T1'' ''D1'' 150))
   \<and> store_doc ''T1'' ''D1'' 150 \<in>
        set (snd (dss_update_discount_store_async ''T1'' (Some ''D1'')
               [(''discount_value'', PyFloat (Finite 150))] [store_doc ''T1'' ''D1'' 10]))"
proof -
  have free: "dsr_get_discount_store_by_code_async ''T1'' (Some ''D2'') [store_doc ''T1'' ''D1'' 10] = None"
    by (simp add: dsr_get_discount_store_by_code_async_def get_one_async_def matches_def
        dsr_make_query_filter_def store_getf_def str_val_def store_doc_def)
  have taken: "dsr_get_discount_store_by_code_async ''T1'' (Some ''D1'') [store_doc ''T1'' ''D1'' 10] =
        Some (store_doc ''T1'' ''D1'' 10)"
    by (simp add: dsr_get_discount_store_by_code_async_def get_one_async_def matches_def
        dsr_make_query_filter_def store_getf_def str_val_def store_doc_def)
  have new: "(store_doc ''T1'' ''D1'' 10)\<lparr>DiscountStoreMasterDocument.discount_value := Some (Finite 150)\<rparr> =
      store_doc ''T1'' ''D1'' 150"
    by (simp add: store_doc_def)
  from discount_value_validation [where v = "Some (Finite 150)" and t = "''T1''" and c = "Some ''D2''"
      and coll = "[store_doc ''T1'' ''D1'' 10]" and sc = "Some ''S1''" and ds = None] free
  have a: "validate_discount_value (Some (Finite 150)) \<noteq> Inr (Some (Finite 150))
      \<and> validate_discount_value (Some (Finite 150)) =
          Inl (ValueError ''discount_value must be between 0.00 and 100.00'')
      \<and> dss_create_discount_store_async ''T1'' (Some ''D2'') (Some ''S1'') (Some (Finite 150)) None
        [store_doc ''T1'' ''D1'' 10] =
        (Inr (store_doc ''T1'' ''D2'' 150), [store_doc ''T1'' ''D1'' 10, store_doc ''T1'' ''D2'' 150])"
    by (simp add: store_doc_def)
  from discount_value_validation [where v = None and t = "''T1''" and c = "Some ''D1''"
      and coll = "[store_doc ''T1'' ''D1'' 10]" and d = "store_doc ''T1'' ''D1'' 10"
      and x = "Finite 150"] taken
  have b: "fst (dss_update_discount_store_async ''T1'' (Some ''D1'') [(''discount_value'', PyFloat (Finite 150))]
        [store_doc ''T1'' ''D1'' 10]) = Inr (Some (store_doc ''T1'' ''D1'' 150))
      \<and> store_doc ''T1'' ''D1'' 150 \<in>
        set (snd (dss_update_discount_store_async ''T1'' (Some ''D1'')
               [(''discount_value'', PyFloat (Finite 150))] [store_doc ''T1'' ''D1'' 10]))"
    by (simp only: new simp_thms)
  from free taken a b show ?thesis by blast
qed

subsection \<open>Existence check, then mutation\<close>

text \<open>
  C4. The services of the discount masters check existence before they mutate. When a
  document with the code exists under the tenant of the repository, \<open>create\<close> raises
  \<open>DocumentAlreadyExistsException\<close> and leaves the collection as it is (nothing is
  overwritten); when none exists, \<open>update\<close> and \<open>delete\<close> raise
  \<open>DocumentNotFoundException\<close> and leave the collection as it is. When the precondition
  holds, the operation is the write of the repository: \<open>create\<close> with the document
  built from the arguments, \<open>update\<close> and \<open>delete\<close> with the code. This holds of
  \<open>DiscountStoreMasterService\<close> and of \<open>CategoryDiscountMasterService\<close>.
\<close>

theorem existence_check_then_mutate:
  "(dsr_get_discount_store_by_code_async t c coll = Some d \<longrightarrow>
      dss_create_discount_store_async t c sc v ds coll =
        (Inl (DocumentAlreadyExistsException
               (''discount with code '' @ fmt c @ '' already exists. tenant_id: ''
                  @ fmt (DiscountStoreMasterDocument.tenant_id d))), coll))
   \<and> (dsr_get_discount_store_by_code_async t c coll = None \<longrightarrow>
      dss_create_discount_store_async t c sc v ds coll =
        dsr_create_discount_store_async t
          \<lparr>shard_key = None, DiscountStoreMasterDocument.tenant_id = None,
           DiscountStoreMasterDocument.store_code = sc, DiscountStoreMasterDocument.discount_code = c,
           DiscountStoreMasterDocument.discount_value = v, DiscountStoreMasterDocument.description = ds\<rparr> coll)
   \<and> (dsr_get_discount_store_by_code_async t c coll = None \<longrightarrow>
      dss_update_discount_store_async t c upd coll =
        (Inl (DocumentNotFoundException (''discount with code '' @ fmt c @ '' not found'')), coll)
      \<and> dss_delete_discount_store_async t c coll =
        (Inl (DocumentNotFoundException (''discount_code with code '' @ fmt c @ '' not found'')), coll))
   \<and> (dsr_get_discount_store_by_code_async t c coll = Some d \<longrightarrow>
      dss_update_discount_store_async t c upd coll = dsr_update_discount_store_async t c upd coll
      \<and> dss_delete_discount_store_async t c coll =
          (Inr (fst (dsr_delete_discount_store_async t c coll)),
           snd (dsr_delete_discount_store_async t c coll)))
   \<and> (cdr_get_category_discount_by_code_async t k ccoll = Some m \<longrightarrow>
      cds_create_category_discount_async t k sc ds dc ccoll =
        (Inl (DocumentAlreadyExistsException
               (''category with code '' @ fmt k @ '' already exists. tenant_id: ''
                  @ fmt (CategoryDiscountMasterDocument.tenant_id m))), ccoll))
   \<and> (cdr_get_category_discount_by_code_async t k ccoll = None \<longrightarrow>
      cds_create_category_discount_async t k sc ds dc ccoll =
        cdr_create_category_discount_async t
          \<lparr>shard_key = None, CategoryDiscountMasterDocument.tenant_id = None,
           CategoryDiscountMasterDocument.category_code = k,
           CategoryDiscountMasterDocument.store_code = sc,
           CategoryDiscountMasterDocument.discount_code = dc,
           CategoryDiscountMasterDocument.description = ds,
           CategoryDiscountMasterDocument.description_short = None\<rparr> ccoll)
   \<and> (cdr_get_category_discount_by_code_async t k ccoll = None \<longrightarrow>
      cds_update_category_discount_async t k upd ccoll =
        (Inl (DocumentNotFoundException (''category with code '' @ fmt k @ '' not found'')), ccoll)
      \<and> cds_delete_category_discount_async t k ccoll =
        (Inl (DocumentNotFoundException (''category with code '' @ fmt k @ '' not found'')), ccoll))
   \<and> (cdr_get_category_discount_by_code_async t k ccoll = Some m \<longrightarrow>
      cds_update_category_discount_async t k upd ccoll = cdr_update_category_discount_async t k upd ccoll
      \<and> cds_delete_category_discount_async t k ccoll =
          (Inr (fst (cdr_delete_category_discount_async t k ccoll)),
           snd (cdr_delete_category_discount_async t k ccoll)))"
  by (simp add: dss_create_discount_store_async_def dss_update_discount_store_async_def
      dss_delete_discount_store_async_def cds_create_category_discount_async_def
      cds_update_category_discount_async_def cds_delete_category_discount_async_def
      DiscountStoreMasterDocument_new_def CategoryDiscountMasterDocument_new_def
      split: prod.splits)

theorem existence_check_then_mutate_witness:
  "dsr_get_discount_store_by_code_async ''T1'' (Some ''D1'') [store_doc ''T1'' ''D1'' 10]
     = Some (store_doc ''T1'' ''D1'' 10)
   \<and> dss_create_discount_store_async ''T1'' (Some ''D1'') (Some ''S2'') (Some (Finite 5)) None
        [store_doc ''T1'' ''D1'' 10] =
       (Inl (DocumentAlreadyExistsException ''discount with code D1 already exists. tenant_id: T1''),
        [store_doc ''T1'' ''D1'' 10])
   \<and> dsr_get_discount_store_by_code_async ''T1'' (Some ''D1'') [] = None
   \<and> dss_update_discount_store_async ''T1'' (Some ''D1'') [(''description'', PyStr ''x'')] [] =
       (Inl (DocumentNotFoundException ''discount with code D1 not found''), [])
   \<and> dss_delete_discount_store_async ''T1'' (Some ''D1'') [] =
       (Inl (DocumentNotFoundException ''discount_code with code D1 not found''), [])
   \<and> cdr_get_category_discount_by_code_async ''T1'' (Some ''C1'') [category_doc ''T1'' ''C1'' ''D1'']
     = Some (category_doc ''T1'' ''C1'' ''D1'')
   \<and> cds_create_category_discount_async ''T1'' (Some ''C1'') (Some ''S2'') None (Some ''D7'')
        [category_doc ''T1'' ''C1'' ''D1''] =
       (Inl (DocumentAlreadyExistsException ''category with code C1 already exists. tenant_id: T1''),
        [category_doc ''T1'' ''C1'' ''D1''])
   \<and> cdr_get_category_discount_by_code_async ''T1'' (Some ''C1'') [] = None
   \<and> cds_update_category_discount_async ''T1'' (Some ''C1'') [(''description'', PyStr ''x'')] [] =
       (Inl (DocumentNotFoundException ''category with code C1 not found''), [])
   \<and> cds_delete_category_discount_async ''T1'' (Some ''C1'') [] =
       (Inl (DocumentNotFoundException ''category with code C1 not found''), [])"
proof -
  have s_hit: "dsr_get_discount_store_by_code_async ''T1'' (Some ''D1'') [store_doc ''T1'' ''D1'' 10]
     = Some (store_doc ''T1'' ''D1'' 10)"
    by (simp add: dsr_get_discount_store_by_code_async_def get_one_async_def matches_def
        dsr_make_query_filter_def store_getf_def str_val_def store_doc_def)
  have s_miss: "dsr_get_discount_store_by_code_async ''T1'' (Some ''D1'') [] = None"
    by (simp add: dsr_get_discount_store_by_code_async_def get_one_async_def)
  have c_hit: "cdr_get_category_discount_by_code_async ''T1'' (Some ''C1'') [category_doc ''T1'' ''C1'' ''D1'']
     = Some (category_doc ''T1'' ''C1'' ''D1'')"
    by (simp add: cdr_get_category_discount_by_code_async_def get_one_async_def matches_def
        cdr_make_query_filter_def category_getf_def str_val_def category_doc_def)
  have c_miss: "cdr_get_category_discount_by_code_async ''T1'' (Some ''C1'') [] = None"
    by (simp add: cdr_get_category_discount_by_code_async_def get_one_async_def)
  note present = existence_check_then_mutate [where t = "''T1''" and c = "Some ''D1''"
      and coll = "[store_doc ''T1'' ''D1'' 10]" and d = "store_doc ''T1'' ''D1'' 10"
      and sc = "Some ''S2''" and v = "Some (Finite 5)" and ds = None
      and k = "Some ''C1''" and ccoll = "[category_doc ''T1'' ''C1'' ''D1'']"
      and m = "category_doc ''T1'' ''C1'' ''D1''" and dc = "Some ''D7''"]
  note absent = existence_check_then_mutate [where t = "''T1''" and c = "Some ''D1''"
      and coll = "[]" and upd = "[(''description'', PyStr ''x'')]"
      and k = "Some ''C1''" and ccoll = "[]"]
  from present s_hit c_hit
  have a: "dss_create_discount_store_async ''T1'' (Some ''D1'') (Some ''S2'') (Some (Finite 5)) None
        [store_doc ''T1'' ''D1'' 10] =
       (Inl (DocumentAlreadyExistsException ''discount with code D1 already exists. tenant_id: T1''),
        [store_doc ''T1'' ''D1'' 10])"
    and b: "cds_create_category_discount_async ''T1'' (Some ''C1'') (Some ''S2'') None (Some ''D7'')
        [category_doc ''T1'' ''C1'' ''D1''] =
       (Inl (DocumentAlreadyExistsException ''category with code C1 already exists. tenant_id: T1''),
        [category_doc ''T1'' ''C1'' ''D1''])"
    by (simp_all add: fmt_def store_doc_def category_doc_def)
  from absent s_miss c_miss
  have c: "dss_update_discount_store_async ''T1'' (Some ''D1'') [(''description'', PyStr ''x'')] [] =
       (Inl (DocumentNotFoundException ''discount with code D1 not found''), [])"
    and d: "dss_delete_discount_store_async ''T1'' (Some ''D1'') [] =
       (Inl (DocumentNotFoundException ''discount_code with code D1 not found''), [])"
    and e: "cds_update_category_discount_async ''T1'' (Some ''C1'') [(''description'', PyStr ''x'')] [] =
       (Inl (DocumentNotFoundException ''category with code C1 not found''), [])"
    and f: "cds_delete_category_discount_async ''T1'' (Some ''C1'') [] =
       (Inl (DocumentNotFoundException ''category with code C1 not found''), [])"
    by (simp_all add: fmt_def)
  from s_hit s_miss c_hit c_miss a b c d e f show ?thesis by simp
qed

subsection \<open>Pagination\<close>

text \<open>
  C5. The paginated list of \<open>DiscountStoreMasterRepository\<close>, for a limit \<open>L \<ge> 0\<close> and a
  page \<open>P \<ge> 1\<close>: the filter of the caller gets the tenant of the repository, the
  documents of the collection that match it are sorted by the sort specification, and
  the page is the slice of at most \<open>L\<close> documents of that sequence that starts at
  \<open>skip = (P - 1) * L\<close>. The sorted sequence is a rearrangement of the matching documents,
  which all belong to the tenant. The \<open>total_count\<close> of the metadata is the number of
  matching documents, whatever \<open>L\<close> and \<open>P\<close>. When four documents match, page 1 and page 2
  with limit 2 have two documents each; page 1 followed by page 2 is the sorted
  sequence (no gap), and the pages share no document when the four are distinct (no
  overlap).
\<close>

theorem pagination_contract:
  assumes "0 \<le> L" and "1 \<le> P"
    and "flt' = AList.update ''tenant_id'' (PyStr tid) flt"
    and "matching = filter (matches store_getf flt') coll"
    and "sorted_matching = sort_by (sort_le store_getf sort_spec) matching"
  shows "length (PaginatedResult.data
             (dsr_get_discount_store_by_filter_paginated_async tid flt L P sort_spec coll)) \<le> nat L
    \<and> PaginatedResult.data (dsr_get_discount_store_by_filter_paginated_async tid flt L P sort_spec coll) =
        take (nat L) (drop (nat ((P - 1) * L)) sorted_matching)
    \<and> md_total_count (metadata (dsr_get_discount_store_by_filter_paginated_async tid flt L P sort_spec coll)) =
        length matching
    \<and> mset sorted_matching = mset matching
    \<and> list_all (\<lambda>d. DiscountStoreMasterDocument.tenant_id d = Some tid) matching
    \<and> (length matching = 4 \<longrightarrow>
          PaginatedResult.data (dsr_get_discount_store_by_filter_paginated_async tid flt 2 1 sort_spec coll)
            @ PaginatedResult.data (dsr_get_discount_store_by_filter_paginated_async tid flt 2 2 sort_spec coll)
          = sorted_matching
        \<and> length (PaginatedResult.data
                     (dsr_get_discount_store_by_filter_paginated_async tid flt 2 1 sort_spec coll)) = 2
        \<and> length (PaginatedResult.data
                     (dsr_get_discount_store_by_filter_paginated_async tid flt 2 2 sort_spec coll)) = 2
        \<and> (distinct matching \<longrightarrow>
              set (PaginatedResult.data
                     (dsr_get_discount_store_by_filter_paginated_async tid flt 2 1 sort_spec coll))
              \<inter> set (PaginatedResult.data
                     (dsr_get_discount_store_by_filter_paginated_async tid flt 2 2 sort_spec coll)) = {}))"
proof -
  have page: "\<And>l p. PaginatedResult.data (dsr_get_discount_store_by_filter_paginated_async tid flt l p sort_spec coll) =
        take (nat l) (drop (nat ((p - 1) * l)) sorted_matching)"
    using assms(3-5)
    by (simp add: dsr_get_discount_store_by_filter_paginated_async_def get_paginated_list_async_def
        get_list_async_with_sort_and_paging_def Let_def)
  have total: "md_total_count (metadata (dsr_get_discount_store_by_filter_paginated_async tid flt L P sort_spec coll)) =
        length matching"
    using assms(3-5)
    by (simp add: dsr_get_discount_store_by_filter_paginated_async_def get_paginated_list_async_def Let_def)
  have perm: "mset sorted_matching = mset matching"
    using assms(5) by (simp add: mset_sort_by)
  have len: "length sorted_matching = length matching"
    using assms(5) by (simp add: length_sort_by)
  have tenant: "list_all (\<lambda>d. DiscountStoreMasterDocument.tenant_id d = Some tid) matching"
    unfolding list_all_iff
  proof
    fix d assume "d \<in> set matching"
    with assms(4) have "matches store_getf flt' d" by simp
    with assms(3) show "DiscountStoreMasterDocument.tenant_id d = Some tid"
      using store_tenant_of_match [of flt' d tid] update_entry [of "''tenant_id''" "PyStr tid" flt]
      by simp
  qed
  have four: "length matching = 4 \<Longrightarrow>
      take 2 sorted_matching @ take 2 (drop 2 sorted_matching) = sorted_matching
      \<and> length (take 2 sorted_matching) = 2 \<and> length (take 2 (drop 2 sorted_matching)) = 2"
    using len by simp
  have disj: "length matching = 4 \<Longrightarrow> distinct matching \<Longrightarrow>
      set (take 2 sorted_matching) \<inter> set (take 2 (drop 2 sorted_matching)) = {}"
  proof -
    assume a: "length matching = 4" and d: "distinct matching"
    from d perm have "distinct sorted_matching" by (metis mset_eq_imp_distinct_iff)
    with four [OF a] have "distinct (take 2 sorted_matching @ take 2 (drop 2 sorted_matching))" by simp
    then show ?thesis by simp
  qed
  show ?thesis
    using total perm tenant four disj by (simp add: page)
qed

theorem pagination_contract_witness:
  "(0::int) \<le> 2 \<and> (1::int) \<le> 1
   \<and> PaginatedResult.data (dsr_get_discount_store_by_filter_paginated_async ''T1'' [] 2 1
         [(''discount_code'', 1)]
         [store_doc ''T1'' ''D3'' 30, store_doc ''T2'' ''D9'' 90, store_doc ''T1'' ''D1'' 10,
          store_doc ''T1'' ''D4'' 40, store_doc ''T1'' ''D2'' 20])
       = [store_doc ''T1'' ''D1'' 10, store_doc ''T1'' ''D2'' 20]
   \<and> PaginatedResult.data (dsr_get_discount_store_by_filter_paginated_async ''T1'' [] 2 2
         [(''discount_code'', 1)]
         [store_doc ''T1'' ''D3'' 30, store_doc ''T2'' ''D9'' 90, store_doc ''T1'' ''D1'' 10,
          store_doc ''T1'' ''D4'' 40, store_doc ''T1'' ''D2'' 20])
       = [store_doc ''T1'' ''D3'' 30, store_doc ''T1'' ''D4'' 40]
   \<and> md_total_count (metadata (dsr_get_discount_store_by_filter_paginated_async ''T1'' [] 2 1
         [(''discount_code'', 1)]
         [store_doc ''T1'' ''D3'' 30, store_doc ''T2'' ''D9'' 90, store_doc ''T1'' ''D1'' 10,
          store_doc ''T1'' ''D4'' 40, store_doc ''T1'' ''D2'' 20])) = 4"
proof -
  let ?coll = "[store_doc ''T1'' ''D3'' 30, store_doc ''T2'' ''D9'' 90, store_doc ''T1'' ''D1'' 10,
          store_doc ''T1'' ''D4'' 40, store_doc ''T1'' ''D2'' 20]"
  let ?flt = "AList.update ''tenant_id'' (PyStr ''T1'') []"
  have m: "filter (matches store_getf ?flt) ?coll =
      [store_doc ''T1'' ''D3'' 30, store_doc ''T1'' ''D1'' 10, store_doc ''T1'' ''D4'' 40,
       store_doc ''T1'' ''D2'' 20]"
    by (simp add: matches_def store_getf_def str_val_def store_doc_def)
  have s: "sort_by (sort_le store_getf [(''discount_code'', 1)])
       [store_doc ''T1'' ''D3'' 30, store_doc ''T1'' ''D1'' 10, store_doc ''T1'' ''D4'' 40,
        store_doc ''T1'' ''D2'' 20] =
      [store_doc ''T1'' ''D1'' 10, store_doc ''T1'' ''D2'' 20, store_doc ''T1'' ''D3'' 30,
       store_doc ''T1'' ''D4'' 40]"
    by (simp add: sort_by_def store_getf_def str_val_def store_doc_def)
  have h1: "(0::int) \<le> 2" and h2: "(1::int) \<le> 1" and h3: "(1::int) \<le> 2" by simp_all
  note p1 = pagination_contract [OF h1 h2 refl refl refl, of "''T1''" "[]" "[(''discount_code'', 1)]" ?coll]
  note p2 = pagination_contract [OF h1 h3 refl refl refl, of "''T1''" "[]" "[(''discount_code'', 1)]" ?coll]
  from p1 have a: "PaginatedResult.data (dsr_get_discount_store_by_filter_paginated_async ''T1'' [] 2 1
         [(''discount_code'', 1)] ?coll) = [store_doc ''T1'' ''D1'' 10, store_doc ''T1'' ''D2'' 20]"
    unfolding m s by simp
  from p2 have b: "PaginatedResult.data (dsr_get_discount_store_by_filter_paginated_async ''T1'' [] 2 2
         [(''discount_code'', 1)] ?coll) = [store_doc ''T1'' ''D3'' 30, store_doc ''T1'' ''D4'' 40]"
    unfolding m s by simp
  from p1 have c: "md_total_count (metadata (dsr_get_discount_store_by_filter_paginated_async ''T1'' [] 2 1
         [(''discount_code'', 1)] ?coll)) = 4"
    unfolding m s by simp
  from a b c show ?thesis by simp
qed

subsection \<open>The cache of the cart-side web repository\<close>

lemma detail_request_cache:
  "detail_request (self\<lparr>category_discount_detail_documents := ds\<rparr>) k = detail_request self k"
  by (simp add: detail_request_def)

lemma web_hit:
  assumes "category_discount_detail_documents self = Some docs"
    and "find (\<lambda>item. CategoryDiscountDetailsDocument.category_code item = Some k) docs = Some item"
  shows "web_get_category_discount_detail_by_code_async client k (self, reqs) = (Inr item, (self, reqs))"
  using assms by (simp add: web_get_category_discount_detail_by_code_async_def)

lemma web_fetch:
  assumes "docs = (case category_discount_detail_documents self of None \<Rightarrow> [] | Some ds \<Rightarrow> ds)"
    and "find (\<lambda>item. CategoryDiscountDetailsDocument.category_code item = Some k) docs = None"
    and "client (detail_request self k) = HttpResponse (Some d)"
  shows "web_get_category_discount_detail_by_code_async client k (self, reqs) =
     (Inr d, (self\<lparr>category_discount_detail_documents := Some (docs @ [d])\<rparr>,
              reqs @ [(detail_request self k)]))"
  using assms by (simp add: web_get_category_discount_detail_by_code_async_def Let_def detail_request_cache)

lemma find_append_new:
  "find P xs = None \<Longrightarrow> P d \<Longrightarrow> find P (xs @ [d]) = Some d"
  by (induction xs) (auto split: if_splits)


text \<open>
  C9, as stated, fails: when the master-data service answers with the payload of the
  default detail document (its answer for a category code without category discount),
  the fetched document has no \<open>category_code\<close>, the second call for the same code misses
  the cache again, and after two calls the cache holds two entries and two requests
  were issued.
\<close>

theorem repeated_soft_miss_duplicates:
  "category_discount_detail_documents
     (fst (snd (web_get_category_discount_detail_by_code_async soft_miss_client ''C1''
        (snd (web_get_category_discount_detail_by_code_async soft_miss_client ''C1'' (cart_repository, []))))))
     = Some [empty_details_doc, empty_details_doc]
   \<and> length (snd (snd (web_get_category_discount_detail_by_code_async soft_miss_client ''C1''
        (snd (web_get_category_discount_detail_by_code_async soft_miss_client ''C1'' (cart_repository, [])))))) = 2"
  by (simp add: web_get_category_discount_detail_by_code_async_def soft_miss_client_def
      cart_repository_def empty_details_doc_def Let_def)


text \<open>
  C9, amended. When the cache holds a document with the requested \<open>category_code\<close>, the
  lookup returns the first such document, issues no request and leaves the repository,
  with its cache, as it is. On a miss followed by a successful fetch the lookup issues
  one request and appends one entry, the fetched document, to the cache. When moreover
  the fetched document carries the requested \<open>category_code\<close>, a second call for that
  code, whatever the service would answer, returns the document fetched by the first,
  issues no request and adds no entry.
\<close>

theorem cache_idempotence:
  "(category_discount_detail_documents self = Some docs \<and>
    find (\<lambda>item. CategoryDiscountDetailsDocument.category_code item = Some k) docs = Some item \<longrightarrow>
      web_get_category_discount_detail_by_code_async client k (self, reqs) = (Inr item, (self, reqs)))
   \<and> (docs = (case category_discount_detail_documents self of None \<Rightarrow> [] | Some ds \<Rightarrow> ds) \<and>
       find (\<lambda>item. CategoryDiscountDetailsDocument.category_code item = Some k) docs = None \<and>
       client (detail_request self k) = HttpResponse (Some d) \<longrightarrow>
      web_get_category_discount_detail_by_code_async client k (self, reqs) =
        (Inr d, (self\<lparr>category_discount_detail_documents := Some (docs @ [d])\<rparr>,
                 reqs @ [(detail_request self k)]))
      \<and> (CategoryDiscountDetailsDocument.category_code d = Some k \<longrightarrow>
           web_get_category_discount_detail_by_code_async client2 k
             (snd (web_get_category_discount_detail_by_code_async client k (self, reqs))) =
           (Inr d, snd (web_get_category_discount_detail_by_code_async client k (self, reqs)))))"
proof (intro conjI impI)
  assume "category_discount_detail_documents self = Some docs \<and>
    find (\<lambda>item. CategoryDiscountDetailsDocument.category_code item = Some k) docs = Some item"
  then show "web_get_category_discount_detail_by_code_async client k (self, reqs) = (Inr item, (self, reqs))"
    by (simp add: web_hit)
next
  assume a: "docs = (case category_discount_detail_documents self of None \<Rightarrow> [] | Some ds \<Rightarrow> ds) \<and>
       find (\<lambda>item. CategoryDiscountDetailsDocument.category_code item = Some k) docs = None \<and>
       client (detail_request self k) = HttpResponse (Some d)"
  then show first: "web_get_category_discount_detail_by_code_async client k (self, reqs) =
        (Inr d, (self\<lparr>category_discount_detail_documents := Some (docs @ [d])\<rparr>,
                 reqs @ [(detail_request self k)]))"
    using web_fetch [of docs self k client d reqs] by blast
  assume k: "CategoryDiscountDetailsDocument.category_code d = Some k"
  from a have miss: "find (\<lambda>item. CategoryDiscountDetailsDocument.category_code item = Some k) docs = None"
    by blast
  have "find (\<lambda>item. CategoryDiscountDetailsDocument.category_code item = Some k) (docs @ [d]) = Some d"
    by (rule find_append_new [OF miss k])
  then show "web_get_category_discount_detail_by_code_async client2 k
             (snd (web_get_category_discount_detail_by_code_async client k (self, reqs))) =
           (Inr d, snd (web_get_category_discount_detail_by_code_async client k (self, reqs)))"
    unfolding first by (simp add: web_hit)
qed


theorem cache_idempotence_witness:
  "web_get_category_discount_detail_by_code_async found_client ''C1'' (cart_repository, []) =
     (Inr (details_doc ''C1'' 20),
      (cart_repository\<lparr>category_discount_detail_documents := Some [details_doc ''C1'' 20]\<rparr>,
       [detail_request cart_repository ''C1'']))
   \<and> web_get_category_discount_detail_by_code_async soft_miss_client ''C1''
       (cart_repository\<lparr>category_discount_detail_documents := Some [details_doc ''C1'' 20]\<rparr>,
        [detail_request cart_repository ''C1'']) =
     (Inr (details_doc ''C1'' 20),
      (cart_repository\<lparr>category_discount_detail_documents := Some [details_doc ''C1'' 20]\<rparr>,
       [detail_request cart_repository ''C1'']))"
proof -
  let ?P = "\<lambda>item. CategoryDiscountDetailsDocument.category_code item = Some ''C1''"
  let ?self' = "cart_repository\<lparr>category_discount_detail_documents := Some [details_doc ''C1'' 20]\<rparr>"
  have e: "[] = (case category_discount_detail_documents cart_repository of None \<Rightarrow> [] | Some ds \<Rightarrow> ds)"
    by (simp add: cart_repository_def)
  have m: "find ?P [] = None" by simp
  have r: "found_client (detail_request cart_repository ''C1'') = HttpResponse (Some (details_doc ''C1'' 20))"
    by (simp add: found_client_def)
  have k: "CategoryDiscountDetailsDocument.category_code (details_doc ''C1'' 20) = Some ''C1''"
    by (simp add: details_doc_def)
  have c: "category_discount_detail_documents ?self' = Some [details_doc ''C1'' 20]" by simp
  have h: "find ?P [details_doc ''C1'' 20] = Some (details_doc ''C1'' 20)"
    by (simp add: details_doc_def)
  from cache_idempotence [where self = cart_repository and docs = "[]" and k = "''C1''"
      and client = found_client and d = "details_doc ''C1'' 20" and reqs = "[]"
      and ?client2.0 = soft_miss_client] e m r k
  have first: "web_get_category_discount_detail_by_code_async found_client ''C1'' (cart_repository, []) =
     (Inr (details_doc ''C1'' 20), (?self', [detail_request cart_repository ''C1'']))"
    by simp
  from cache_idempotence [where self = ?self' and docs = "[details_doc ''C1'' 20]" and k = "''C1''"
      and item = "details_doc ''C1'' 20" and client = soft_miss_client
      and reqs = "[detail_request cart_repository ''C1'']"] c h
  have second: "web_get_category_discount_detail_by_code_async soft_miss_client ''C1''
       (?self', [detail_request cart_repository ''C1'']) =
     (Inr (details_doc ''C1'' 20), (?self', [detail_request cart_repository ''C1'']))"
    by simp
  from first second show ?thesis by simp
qed


subsection \<open>The detail endpoint\<close>

text \<open>
  C10. A call of \<open>get_category_discount_detail\<close> that raises nothing got a detail
  document from the service, an instance that is true, also on the soft miss where
  all of its fields are \<open>None\<close>. So the branch of the "not found" message with
  \<open>data = None\<close> is never taken: the response has \<open>success = True\<close>, code 200, the "found
  successfully" message and the transformed document as its \<open>data\<close>.
\<close>

theorem endpoint_always_found:
  "(\<exists>e. get_category_discount_detail transform k tid tsec ccoll scoll = Inl e)
   \<or> (\<exists>d. cds_get_category_discount_detail_by_code_async tid tid (Some k) ccoll scoll = Inr d
        \<and> truthy (Some d)
        \<and> get_category_discount_detail transform k tid tsec ccoll scoll =
            Inr \<lparr>success = True, code = 200,
                 message = ''Category '' @ k @ '' found successfully for tenant_id: '' @ tid,
                 data = Some (transform d), operation = ''get_category_discount_detail''\<rparr>)"
  by (auto simp: get_category_discount_detail_def truthy_def Let_def split: sum.splits)

theorem endpoint_always_found_witness:
  "get_category_discount_detail id ''C1'' ''T1'' ''T1'' [] [] =
     Inr \<lparr>success = True, code = 200,
          message = ''Category C1 found successfully for tenant_id: T1'',
          data = Some CategoryDiscountDetailDocument_new,
          operation = ''get_category_discount_detail''\<rparr>"
proof -
  have s: "cds_get_category_discount_detail_by_code_async ''T1'' ''T1'' (Some ''C1'') [] [] =
      Inr CategoryDiscountDetailDocument_new"
    by (simp add: cds_get_category_discount_detail_by_code_async_def
        cdr_get_category_discount_by_code_async_def get_one_async_def)
  have n: "\<not> (\<exists>e. get_category_discount_detail id ''C1'' ''T1'' ''T1'' [] [] = Inl e)"
    by (simp add: get_category_discount_detail_def verify_tenant_id_def s Let_def split: prod.splits)
  from endpoint_always_found [of id "''C1''" "''T1''" "''T1''" "[]" "[]"] n s
  show ?thesis by simp
qed

subsection \<open>The item-book nested editor\<close>


lemma edit_first_missing: "\<not> list_ex P xs \<Longrightarrow> edit_first P f missing xs = Inl missing"
  by (induction xs) auto

lemma edit_first_fails: "find P xs = Some x \<Longrightarrow> f x = Inl e \<Longrightarrow> edit_first P f missing xs = Inl e"
  by (induction xs) (auto split: if_splits)




lemma mutation_failure_unchanged:
  "isl (fst (item_book_mutation tid bid edit coll)) \<Longrightarrow> snd (item_book_mutation tid bid edit coll) = coll"
  by (auto simp: item_book_mutation_def Let_def split: option.splits sum.splits)

lemma mutation_no_book:
  "get_item_book_by_id_async tid bid coll = None \<Longrightarrow>
   item_book_mutation tid bid edit coll = (Inl (NotFound BookLevel), coll)"
  by (simp add: item_book_mutation_def)

lemma mutation_edit_fails:
  "get_item_book_by_id_async tid bid coll = Some book \<Longrightarrow> edit book = Inl e \<Longrightarrow>
   item_book_mutation tid bid edit coll = (Inl e, coll)"
  by (simp add: item_book_mutation_def)

lemma in_category_missing:
  "\<not> list_ex (\<lambda>c. category_number c = cn) (categories book) \<Longrightarrow>
   in_category cn f book = Inl (NotFound CategoryLevel)"
  by (simp add: in_category_def edit_first_missing)

lemma in_category_fails:
  "find (\<lambda>c. category_number c = cn) (categories book) = Some cat \<Longrightarrow> f cat = Inl e \<Longrightarrow>
   in_category cn f book = Inl e"
  by (simp add: in_category_def edit_first_fails)

lemma in_tab_missing:
  "\<not> list_ex (\<lambda>t. tab_number t = tn) (tabs cat) \<Longrightarrow> in_tab tn f cat = Inl (NotFound TabLevel)"
  by (simp add: in_tab_def edit_first_missing)
























text \<open>
  C6. Every mutation of the nested editor (add, update and delete of a category, of a
  tab, of a button) fails with \<open>NotFound\<close> for the missing level, and leaves the
  collection of persisted item books as it is, when the book does not exist; so do the
  operations addressed through a category when the book exists and no category has the
  \<open>category_number\<close>, and so do the operations addressed through a tab when the
  category exists and none of its tabs has the \<open>tab_number\<close>. Whatever the failure of a
  mutation, the collection after the call is the collection before it: nothing partial
  is persisted.
\<close>

theorem missing_ancestor_atomicity:
  "(get_item_book_by_id_async tid bid coll = None \<longrightarrow>
      add_category_to_item_book_async tid bid c coll = (Inl (NotFound BookLevel), coll)
    \<and> update_category_in_item_book_async tid bid cn c coll = (Inl (NotFound BookLevel), coll)
    \<and> delete_category_from_item_book_async tid bid cn coll = (Inl (NotFound BookLevel), coll)
    \<and> add_tab_to_category_in_item_book_async tid bid cn t coll = (Inl (NotFound BookLevel), coll)
    \<and> update_tab_in_category_in_item_book_async tid bid cn tn t coll = (Inl (NotFound BookLevel), coll)
    \<and> delete_tab_from_category_in_item_book_async tid bid cn tn coll = (Inl (NotFound BookLevel), coll)
    \<and> add_button_to_tab_in_category_in_item_book_async tid bid cn tn b coll = (Inl (NotFound BookLevel), coll)
    \<and> update_button_in_tab_in_category_in_item_book_async tid bid cn tn x y b coll = (Inl (NotFound BookLevel), coll)
    \<and> delete_button_from_tab_in_category_in_item_book_async tid bid cn tn x y coll = (Inl (NotFound BookLevel), coll))
   \<and> (get_item_book_by_id_async tid bid coll = Some book \<and>
       \<not> list_ex (\<lambda>c. category_number c = cn) (categories book) \<longrightarrow>
      update_category_in_item_book_async tid bid cn c coll = (Inl (NotFound CategoryLevel), coll)
    \<and> add_tab_to_category_in_item_book_async tid bid cn t coll = (Inl (NotFound CategoryLevel), coll)
    \<and> update_tab_in_category_in_item_book_async tid bid cn tn t coll = (Inl (NotFound CategoryLevel), coll)
    \<and> delete_tab_from_category_in_item_book_async tid bid cn tn coll = (Inl (NotFound CategoryLevel), coll)
    \<and> add_button_to_tab_in_category_in_item_book_async tid bid cn tn b coll = (Inl (NotFound CategoryLevel), coll)
    \<and> update_button_in_tab_in_category_in_item_book_async tid bid cn tn x y b coll = (Inl (NotFound CategoryLevel), coll)
    \<and> delete_button_from_tab_in_category_in_item_book_async tid bid cn tn x y coll = (Inl (NotFound CategoryLevel), coll))
   \<and> (get_item_book_by_id_async tid bid coll = Some book \<and>
       find (\<lambda>c. category_number c = cn) (categories book) = Some cat \<and>
       \<not> list_ex (\<lambda>t. tab_number t = tn) (tabs cat) \<longrightarrow>
      update_tab_in_category_in_item_book_async tid bid cn tn t coll = (Inl (NotFound TabLevel), coll)
    \<and> add_button_to_tab_in_category_in_item_book_async tid bid cn tn b coll = (Inl (NotFound TabLevel), coll)
    \<and> update_button_in_tab_in_category_in_item_book_async tid bid cn tn x y b coll = (Inl (NotFound TabLevel), coll)
    \<and> delete_button_from_tab_in_category_in_item_book_async tid bid cn tn x y coll = (Inl (NotFound TabLevel), coll))
   \<and> (isl (fst (add_category_to_item_book_async tid bid c coll)) \<longrightarrow>
        snd (add_category_to_item_book_async tid bid c coll) = coll)
   \<and> (isl (fst (update_category_in_item_book_async tid bid cn c coll)) \<longrightarrow>
        snd (update_category_in_item_book_async tid bid cn c coll) = coll)
   \<and> (isl (fst (delete_category_from_item_book_async tid bid cn coll)) \<longrightarrow>
        snd (delete_category_from_item_book_async tid bid cn coll) = coll)
   \<and> (isl (fst (add_tab_to_category_in_item_book_async tid bid cn t coll)) \<longrightarrow>
        snd (add_tab_to_category_in_item_book_async tid bid cn t coll) = coll)
   \<and> (isl (fst (update_tab_in_category_in_item_book_async tid bid cn tn t coll)) \<longrightarrow>
        snd (update_tab_in_category_in_item_book_async tid bid cn tn t coll) = coll)
   \<and> (isl (fst (delete_tab_from_category_in_item_book_async tid bid cn tn coll)) \<longrightarrow>
        snd (delete_tab_from_category_in_item_book_async tid bid cn tn coll) = coll)
   \<and> (isl (fst (add_button_to_tab_in_category_in_item_book_async tid bid cn tn b coll)) \<longrightarrow>
        snd (add_button_to_tab_in_category_in_item_book_async tid bid cn tn b coll) = coll)
   \<and> (isl (fst (update_button_in_tab_in_category_in_item_book_async tid bid cn tn x y b coll)) \<longrightarrow>
        snd (update_button_in_tab_in_category_in_item_book_async tid bid cn tn x y b coll) = coll)
   \<and> (isl (fst (delete_button_from_tab_in_category_in_item_book_async tid bid cn tn x y coll)) \<longrightarrow>
        snd (delete_button_from_tab_in_category_in_item_book_async tid bid cn tn x y coll) = coll)"
proof -
  have book: "get_item_book_by_id_async tid bid coll = None \<Longrightarrow>
      item_book_mutation tid bid edit coll = (Inl (NotFound BookLevel), coll)" for edit
    by (rule mutation_no_book)
  have cat: "get_item_book_by_id_async tid bid coll = Some book \<Longrightarrow>
      \<not> list_ex (\<lambda>c. category_number c = cn) (categories book) \<Longrightarrow>
      item_book_mutation tid bid (in_category cn f) coll = (Inl (NotFound CategoryLevel), coll)" for f
    by (simp add: mutation_edit_fails in_category_missing)
  have tab: "get_item_book_by_id_async tid bid coll = Some book \<Longrightarrow>
      find (\<lambda>c. category_number c = cn) (categories book) = Some cat \<Longrightarrow>
      \<not> list_ex (\<lambda>t. tab_number t = tn) (tabs cat) \<Longrightarrow>
      item_book_mutation tid bid (in_category cn (in_tab tn f)) coll = (Inl (NotFound TabLevel), coll)" for f
    by (simp add: mutation_edit_fails in_category_fails in_tab_missing)
  show ?thesis
    unfolding add_category_to_item_book_async_def update_category_in_item_book_async_def
      delete_category_from_item_book_async_def add_tab_to_category_in_item_book_async_def
      update_tab_in_category_in_item_book_async_def delete_tab_from_category_in_item_book_async_def
      add_button_to_tab_in_category_in_item_book_async_def
      update_button_in_tab_in_category_in_item_book_async_def
      delete_button_from_tab_in_category_in_item_book_async_def
    using book cat tab by (simp add: mutation_failure_unchanged)
qed


theorem missing_ancestor_atomicity_witness:
  "update_tab_in_category_in_item_book_async ''T1'' ''B9'' 1 1 (example_tab [example_button])
      [example_book [example_category [example_tab []]]] =
     (Inl (NotFound BookLevel), [example_book [example_category [example_tab []]]])
   \<and> update_tab_in_category_in_item_book_async ''T1'' ''B1'' 9 1 (example_tab [example_button])
      [example_book [example_category [example_tab []]]] =
     (Inl (NotFound CategoryLevel), [example_book [example_category [example_tab []]]])
   \<and> add_button_to_tab_in_category_in_item_book_async ''T1'' ''B1'' 1 7 example_button
      [example_book [example_category [example_tab []]]] =
     (Inl (NotFound TabLevel), [example_book [example_category [example_tab []]]])
   \<and> snd (update_tab_in_category_in_item_book_async ''T1'' ''B1'' 9 1 (example_tab [example_button])
      [example_book [example_category [example_tab []]]]) =
     [example_book [example_category [example_tab []]]]"
proof -
  let ?coll = "[example_book [example_category [example_tab []]]]"
  have no_book: "get_item_book_by_id_async ''T1'' ''B9'' ?coll = None"
    by (simp add: get_item_book_by_id_async_def is_item_book_def example_book_def)
  have the_book: "get_item_book_by_id_async ''T1'' ''B1'' ?coll = Some (example_book [example_category [example_tab []]])"
    by (simp add: get_item_book_by_id_async_def is_item_book_def example_book_def)
  have no_cat: "\<not> list_ex (\<lambda>c. category_number c = 9)
      (categories (example_book [example_category [example_tab []]]))"
    by (simp add: example_book_def example_category_def)
  have the_cat: "find (\<lambda>c. category_number c = 1)
      (categories (example_book [example_category [example_tab []]])) = Some (example_category [example_tab []])"
    by (simp add: example_book_def example_category_def)
  have no_tab: "\<not> list_ex (\<lambda>t. tab_number t = 7) (tabs (example_category [example_tab []]))"
    by (simp add: example_category_def example_tab_def)
  from missing_ancestor_atomicity [where tid = "''T1''" and bid = "''B9''" and coll = ?coll
      and cn = 1 and tn = 1 and t = "example_tab [example_button]"] no_book
  have a: "update_tab_in_category_in_item_book_async ''T1'' ''B9'' 1 1 (example_tab [example_button]) ?coll =
     (Inl (NotFound BookLevel), ?coll)"
    by simp
  from missing_ancestor_atomicity [where tid = "''T1''" and bid = "''B1''" and coll = ?coll
      and book = "example_book [example_category [example_tab []]]"
      and cn = 9 and tn = 1 and t = "example_tab [example_button]"] the_book no_cat
  have b: "update_tab_in_category_in_item_book_async ''T1'' ''B1'' 9 1 (example_tab [example_button]) ?coll =
     (Inl (NotFound CategoryLevel), ?coll)"
    by simp
  from missing_ancestor_atomicity [where tid = "''T1''" and bid = "''B1''" and coll = ?coll
      and book = "example_book [example_category [example_tab []]]"
      and cat = "example_category [example_tab []]"
      and cn = 1 and tn = 7 and b = example_button] the_book the_cat no_tab
  have c: "add_button_to_tab_in_category_in_item_book_async ''T1'' ''B1'' 1 7 example_button ?coll =
     (Inl (NotFound TabLevel), ?coll)"
    by simp
  from a b c show ?thesis by simp
qed






end
